theory Spec2Isabelle
  imports Complex_Main "HOL-Library.Multiset"
begin

section \<open>Failures as values\<close>

text \<open>
  The module is Python 2 on top of NumPy and TensorFlow 1.x. Every way a call can fail
  is a value: Python's IndexError, ZeroDivisionError, ValueError and AssertionError,
  and the InvalidArgumentError that a TensorFlow kernel raises when the graph is run.
  A finite floating-point number is modelled by a real, a Python integer by \<open>int\<close>.
\<close>

datatype error = IndexError | ZeroDivisionError | ValueError | AssertionError
  | InvalidArgumentError

definition ebind :: "error + 'a \<Rightarrow> ('a \<Rightarrow> error + 'b) \<Rightarrow> error + 'b" where
  "ebind m f = (case m of Inl e \<Rightarrow> Inl e | Inr v \<Rightarrow> f v)"

section \<open>The loss: \<open>ssd_losses\<close>\<close>

text \<open>
  A tensor of shape (batch, anchors, ...) is a function of its indices, read only below
  its shape; the batch size \<open>B\<close> and the number of anchors per image \<open>A\<close> are the static
  shape that \<open>tensor_shape(gclasses)\<close> returns. \<open>confidences i j c\<close> is
  \<open>confidences[i, j, c]\<close>, \<open>localizations i j k\<close> with \<open>k < 4\<close> is
  \<open>localizations[i, j, k]\<close>.
\<close>

definition reduce_sum :: "nat \<Rightarrow> (nat \<Rightarrow> real) \<Rightarrow> real" where
  "reduce_sum n v = sum_list (map v [0..<n])"

definition reduce_sum2 :: "nat \<Rightarrow> nat \<Rightarrow> (nat \<Rightarrow> nat \<Rightarrow> real) \<Rightarrow> real" where
  "reduce_sum2 B A t = reduce_sum B (\<lambda>i. reduce_sum A (t i))"

definition cast_float :: "bool \<Rightarrow> real" where
  "cast_float b = (if b then 1 else 0)"

definition pos_mask :: "(nat \<Rightarrow> nat \<Rightarrow> int) \<Rightarrow> nat \<Rightarrow> nat \<Rightarrow> bool" where
  "pos_mask gclasses i j = (gclasses i j > 0)"

definition neg_mask :: "(nat \<Rightarrow> nat \<Rightarrow> int) \<Rightarrow> nat \<Rightarrow> nat \<Rightarrow> bool" where
  "neg_mask gclasses i j = (\<not> pos_mask gclasses i j)"

definition float_pos_mask :: "(nat \<Rightarrow> nat \<Rightarrow> int) \<Rightarrow> nat \<Rightarrow> nat \<Rightarrow> real" where
  "float_pos_mask gclasses i j = cast_float (pos_mask gclasses i j)"

definition nvalues ::
  "(nat \<Rightarrow> nat \<Rightarrow> nat \<Rightarrow> real) \<Rightarrow> (nat \<Rightarrow> nat \<Rightarrow> int) \<Rightarrow> nat \<Rightarrow> nat \<Rightarrow> real" where
  "nvalues confidences gclasses i j =
     (if neg_mask gclasses i j then confidences i j 0 else float_pos_mask gclasses i j)"

text \<open>
  \<open>tf.cast(x, tf.int32)\<close> of a float truncates towards zero. The argument here is at
  most the number of anchors, so the upper end of the 32-bit range is not reached.
\<close>

definition cast_int32 :: "real \<Rightarrow> int" where
  "cast_int32 x = (if 0 \<le> x then \<lfloor>x\<rfloor> else \<lceil>x\<rceil>)"

text \<open>
  \<open>tf.nn.top_k(v, k)\<close>: the \<open>k\<close> largest entries in descending order; the kernel
  rejects a negative \<open>k\<close> and a \<open>k\<close> beyond the length of \<open>v\<close>.
\<close>

definition top_k :: "real list \<Rightarrow> int \<Rightarrow> error + real list" where
  "top_k v k =
     (if k < 0 \<or> int (length v) < k then Inl InvalidArgumentError
      else Inr (take (nat k) (rev (sort v))))"

text \<open>\<open>val[-1]\<close> on a tensor: a strided slice, out of bounds when \<open>val\<close> is empty.\<close>

definition last_elem :: "real list \<Rightarrow> error + real" where
  "last_elem val = (if val = [] then Inl InvalidArgumentError else Inr (last val))"

text \<open>The two branches of the per-image \<open>tf.cond(n_pos > 0, has_pos, no_pos)\<close>.\<close>

definition mining_has_pos ::
  "nat \<Rightarrow> real \<Rightarrow> (nat \<Rightarrow> real) \<Rightarrow> (nat \<Rightarrow> bool) \<Rightarrow> (nat \<Rightarrow> real) \<Rightarrow> real
     \<Rightarrow> error + (nat \<Rightarrow> real)" where
  "mining_has_pos A negative_ratio img_neg_conf img_neg_mask img_float_neg_mask n_pos =
     (let n_neg = n_pos * negative_ratio;
          max_neg_entries = reduce_sum A img_float_neg_mask;
          n_neg = min max_neg_entries n_neg;
          n_neg = cast_int32 n_neg
      in ebind (top_k (map (\<lambda>j. - img_neg_conf j) [0..<A]) n_neg) (\<lambda>val.
         ebind (last_elem val) (\<lambda>min_val.
           Inr (\<lambda>j. cast_float (img_neg_mask j \<and> img_neg_conf j \<le> - min_val)))))"

definition mining_no_pos :: "(nat \<Rightarrow> real) \<Rightarrow> error + (nat \<Rightarrow> real)" where
  "mining_no_pos img_float_pos_mask = Inr (\<lambda>j. 0)"

definition selected_img_neg ::
  "nat \<Rightarrow> (nat \<Rightarrow> nat \<Rightarrow> nat \<Rightarrow> real) \<Rightarrow> (nat \<Rightarrow> nat \<Rightarrow> int) \<Rightarrow> real \<Rightarrow> nat
     \<Rightarrow> error + (nat \<Rightarrow> real)" where
  "selected_img_neg A confidences gclasses negative_ratio img_idx =
     (let img_neg_conf = nvalues confidences gclasses img_idx;
          img_pos_mask = pos_mask gclasses img_idx;
          img_neg_mask = neg_mask gclasses img_idx;
          img_float_pos_mask = (\<lambda>j. cast_float (img_pos_mask j));
          img_float_neg_mask = (\<lambda>j. cast_float (img_neg_mask j));
          n_pos = reduce_sum A img_float_pos_mask
      in if n_pos > 0
         then mining_has_pos A negative_ratio img_neg_conf img_neg_mask
                img_float_neg_mask n_pos
         else mining_no_pos img_float_pos_mask)"

text \<open>
  \<open>tf.stack\<close> of the per-image results: running it runs every image's \<open>tf.cond\<close>, and
  the first failure is the failure of the whole tensor.
\<close>

fun tf_stack :: "(error + 'a) list \<Rightarrow> error + 'a list" where
  "tf_stack [] = Inr []"
| "tf_stack (m # ms) = ebind m (\<lambda>v. ebind (tf_stack ms) (\<lambda>vs. Inr (v # vs)))"

definition selected_neg ::
  "nat \<Rightarrow> nat \<Rightarrow> (nat \<Rightarrow> nat \<Rightarrow> nat \<Rightarrow> real) \<Rightarrow> (nat \<Rightarrow> nat \<Rightarrow> int) \<Rightarrow> real
     \<Rightarrow> error + (nat \<Rightarrow> nat \<Rightarrow> real)" where
  "selected_neg B A confidences gclasses negative_ratio =
     ebind (tf_stack (map (selected_img_neg A confidences gclasses negative_ratio) [0..<B]))
       (\<lambda>rows. Inr (\<lambda>i. rows ! i))"

definition cls_weight ::
  "nat \<Rightarrow> nat \<Rightarrow> (nat \<Rightarrow> nat \<Rightarrow> nat \<Rightarrow> real) \<Rightarrow> (nat \<Rightarrow> nat \<Rightarrow> int) \<Rightarrow> real
     \<Rightarrow> error + (nat \<Rightarrow> nat \<Rightarrow> real)" where
  "cls_weight B A confidences gclasses negative_ratio =
     ebind (selected_neg B A confidences gclasses negative_ratio)
       (\<lambda>sel. Inr (\<lambda>i j. sel i j + float_pos_mask gclasses i j))"

text \<open>
  A float tensor divided by a float tensor does not raise on a zero divisor: \<open>0 / 0\<close> is
  NaN and any other number over zero is infinite. The two losses end in such a division,
  so a loss is a finite number, NaN or an infinity.
\<close>

datatype tf_float = Finite real | NaN | PosInf | NegInf

definition tf_div :: "real \<Rightarrow> real \<Rightarrow> tf_float" where
  "tf_div a b =
     (if b \<noteq> 0 then Finite (a / b)
      else if a = 0 then NaN
      else if 0 < a then PosInf
      else NegInf)"

text \<open>
  The library function \<open>tf.nn.sparse_softmax_cross_entropy_with_logits\<close> is the
  parameter \<open>xent\<close>, applied to the logits and the label of one anchor; it fails on a
  label outside the classes. The op runs over the whole tensor, and its first failure is
  the failure of the tensor.
\<close>

definition xent_tensor ::
  "((nat \<Rightarrow> real) \<Rightarrow> int \<Rightarrow> error + real) \<Rightarrow> nat \<Rightarrow> nat \<Rightarrow> (nat \<Rightarrow> nat \<Rightarrow> nat \<Rightarrow> real)
     \<Rightarrow> (nat \<Rightarrow> nat \<Rightarrow> int) \<Rightarrow> error + (nat \<Rightarrow> nat \<Rightarrow> real)" where
  "xent_tensor xent B A logits gclasses =
     ebind (tf_stack (map (\<lambda>i. tf_stack (map (\<lambda>j. xent (logits i j) (gclasses i j)) [0..<A]))
                        [0..<B]))
       (\<lambda>rows. Inr (\<lambda>i j. rows ! i ! j))"

text \<open>
  Modelled from the spec: \<open>custom_layers.abs_smooth\<close> is not among the sources; the
  specification gives the penalty as \<open>0.5 * e^2\<close> when \<open>|e| < 1\<close> and \<open>|e| - 0.5\<close>
  otherwise.
\<close>

definition abs_smooth :: "real \<Rightarrow> real" where
  "abs_smooth e = (if \<bar>e\<bar> < 1 then 0.5 * e\<^sup>2 else \<bar>e\<bar> - 0.5)"

text \<open>
  The classification loss, \<open>tf.cond(N > 0, has_pos, no_pos)\<close>. The weights are built
  outside the conditional, so they are computed on either branch; the cross-entropy is
  built inside \<open>has_pos\<close> and runs only when that branch is taken. \<open>no_pos\<close> is the
  constant \<open>0.0\<close>.
\<close>

definition cls_loss ::
  "((nat \<Rightarrow> real) \<Rightarrow> int \<Rightarrow> error + real) \<Rightarrow> nat \<Rightarrow> nat \<Rightarrow> (nat \<Rightarrow> nat \<Rightarrow> nat \<Rightarrow> real)
     \<Rightarrow> (nat \<Rightarrow> nat \<Rightarrow> nat \<Rightarrow> real) \<Rightarrow> (nat \<Rightarrow> nat \<Rightarrow> int) \<Rightarrow> real
     \<Rightarrow> error + tf_float" where
  "cls_loss xent B A confidences logits gclasses negative_ratio =
     (let N = reduce_sum2 B A (float_pos_mask gclasses)
      in ebind (cls_weight B A confidences gclasses negative_ratio) (\<lambda>w.
           if N > 0
           then ebind (xent_tensor xent B A logits gclasses) (\<lambda>ce.
                  Inr (tf_div (reduce_sum2 B A (\<lambda>i j. ce i j * w i j)) N))
           else Inr (Finite 0)))"

definition loc_loss ::
  "nat \<Rightarrow> nat \<Rightarrow> (nat \<Rightarrow> nat \<Rightarrow> nat \<Rightarrow> real) \<Rightarrow> (nat \<Rightarrow> nat \<Rightarrow> int)
     \<Rightarrow> (nat \<Rightarrow> nat \<Rightarrow> nat \<Rightarrow> real) \<Rightarrow> real \<Rightarrow> error + tf_float" where
  "loc_loss B A localizations gclasses glocalizations alpha =
     (let N = reduce_sum2 B A (float_pos_mask gclasses)
      in if N > 0
         then Inr (tf_div (alpha * reduce_sum2 B A (\<lambda>i j. reduce_sum 4 (\<lambda>k.
                abs_smooth (localizations i j k - glocalizations i j k)
                  * float_pos_mask gclasses i j))) N)
         else Inr (Finite 0))"

text \<open>
  \<open>ssd_losses\<close> has no return statement: its two results are the tensors it adds to
  the collection \<open>tf.GraphKeys.LOSSES\<close>, the classification loss first. The collection
  is the state it is passed and returns. \<open>gscores\<close> only feeds a summary and
  \<open>label_smoothing\<close> is not read. The \<open>tf.summary\<close> statistics are separate graph
  outputs that neither loss reads; they are left out.
\<close>

definition ssd_losses ::
  "((nat \<Rightarrow> real) \<Rightarrow> int \<Rightarrow> error + real) \<Rightarrow> nat \<Rightarrow> nat \<Rightarrow> (nat \<Rightarrow> nat \<Rightarrow> nat \<Rightarrow> real)
     \<Rightarrow> (nat \<Rightarrow> nat \<Rightarrow> nat \<Rightarrow> real) \<Rightarrow> (nat \<Rightarrow> nat \<Rightarrow> nat \<Rightarrow> real) \<Rightarrow> (nat \<Rightarrow> nat \<Rightarrow> int)
     \<Rightarrow> (nat \<Rightarrow> nat \<Rightarrow> nat \<Rightarrow> real) \<Rightarrow> (nat \<Rightarrow> nat \<Rightarrow> real) \<Rightarrow> real \<Rightarrow> real \<Rightarrow> real
     \<Rightarrow> (error + tf_float) list \<Rightarrow> (error + tf_float) list" where
  "ssd_losses xent B A confidences logits localizations gclasses glocalizations gscores
       negative_ratio alpha label_smoothing losses =
     losses @ [cls_loss xent B A confidences logits gclasses negative_ratio,
               loc_loss B A localizations gclasses glocalizations alpha]"

section \<open>The anchors: \<open>ssd_anchor_one_layer\<close> and \<open>ssd_anchors_all_layers\<close>\<close>

text \<open>
  The image shape and the feature shapes are pairs of Python integers. A reference size
  is a Python number, an integer or a float: the module is Python 2 without
  \<open>from __future__ import division\<close>, so \<open>/\<close> on two integers rounds down and gives an
  integer, and \<open>/\<close> with a float operand is the true division and gives a float; both
  raise on a zero divisor. \<open>*\<close> gives an integer on two integers and a float otherwise.
  Ratios, steps and the offset only enter float operations (\<open>math.sqrt\<close>, arithmetic on
  NumPy float arrays) and are reals. The \<open>dtype\<close> argument selects the float precision of
  the grid and has no counterpart over the reals.
\<close>

datatype pynum = PyInt int | PyFloat real

fun to_float :: "pynum \<Rightarrow> real" where
  "to_float (PyInt a) = real_of_int a"
| "to_float (PyFloat x) = x"

fun py_div :: "pynum \<Rightarrow> pynum \<Rightarrow> error + pynum" where
  "py_div (PyInt a) (PyInt b) =
     (if b = 0 then Inl ZeroDivisionError else Inr (PyInt (a div b)))"
| "py_div a b =
     (if to_float b = 0 then Inl ZeroDivisionError
      else Inr (PyFloat (to_float a / to_float b)))"

fun py_mul :: "pynum \<Rightarrow> pynum \<Rightarrow> pynum" where
  "py_mul (PyInt a) (PyInt b) = PyInt (a * b)"
| "py_mul a b = PyFloat (to_float a * to_float b)"

definition math_sqrt :: "real \<Rightarrow> error + real" where
  "math_sqrt x = (if x < 0 then Inl ValueError else Inr (sqrt x))"

definition getitem :: "'a list \<Rightarrow> nat \<Rightarrow> error + 'a" where
  "getitem xs i = (if i < length xs then Inr (xs ! i) else Inl IndexError)"

definition setitem :: "'a list \<Rightarrow> nat \<Rightarrow> 'a \<Rightarrow> error + 'a list" where
  "setitem xs i v = (if i < length xs then Inr (xs[i := v]) else Inl IndexError)"

text \<open>
  The loop \<open>for i, r in enumerate(ratios)\<close>, which stores at \<open>i + di\<close>; \<open>k\<close> is that
  index and \<open>(h, w)\<close> the two lists it updates.
\<close>

fun ratio_loop ::
  "int \<times> int \<Rightarrow> pynum list \<Rightarrow> nat \<Rightarrow> real list \<Rightarrow> pynum list \<times> pynum list
     \<Rightarrow> error + (pynum list \<times> pynum list)" where
  "ratio_loop img_shape sizes k [] (h, w) = Inr (h, w)"
| "ratio_loop img_shape sizes k (r # ratios) (h, w) =
     ebind (getitem sizes 0) (\<lambda>s0.
     ebind (py_div s0 (PyInt (fst img_shape))) (\<lambda>a.
     ebind (math_sqrt r) (\<lambda>sr.
     ebind (py_div a (PyFloat sr)) (\<lambda>hv.
     ebind (setitem h k hv) (\<lambda>h'.
     ebind (getitem sizes 0) (\<lambda>s0'.
     ebind (py_div s0' (PyInt (snd img_shape))) (\<lambda>b.
     ebind (math_sqrt r) (\<lambda>sr'.
     ebind (setitem w k (py_mul b (PyFloat sr'))) (\<lambda>w'.
       ratio_loop img_shape sizes (Suc k) ratios (h', w'))))))))))"

text \<open>
  The relative heights and widths \<open>h\<close>, \<open>w\<close> of the anchors of one cell, as the Python
  numbers the lists hold (they start as lists of the integer 0).
\<close>

definition anchor_hw ::
  "int \<times> int \<Rightarrow> pynum list \<Rightarrow> real list \<Rightarrow> error + (pynum list \<times> pynum list)" where
  "anchor_hw img_shape sizes ratios =
     (let num_anchors = length sizes + length ratios;
          h = replicate num_anchors (PyInt 0);
          w = replicate num_anchors (PyInt 0)
      in ebind (getitem sizes 0) (\<lambda>s0.
         ebind (py_div s0 (PyInt (fst img_shape))) (\<lambda>h0.
         ebind (setitem h 0 h0) (\<lambda>h.
         ebind (getitem sizes 0) (\<lambda>s0'.
         ebind (py_div s0' (PyInt (snd img_shape))) (\<lambda>w0.
         ebind (setitem w 0 w0) (\<lambda>w.
         ebind
           (if length sizes > 1
            then ebind (getitem sizes 0) (\<lambda>a.
                 ebind (getitem sizes 1) (\<lambda>b.
                 ebind (math_sqrt (to_float (py_mul a b))) (\<lambda>m.
                 ebind (py_div (PyFloat m) (PyInt (fst img_shape))) (\<lambda>h1.
                 ebind (setitem h 1 h1) (\<lambda>h.
                 ebind (getitem sizes 0) (\<lambda>a'.
                 ebind (getitem sizes 1) (\<lambda>b'.
                 ebind (math_sqrt (to_float (py_mul a' b'))) (\<lambda>m'.
                 ebind (py_div (PyFloat m') (PyInt (snd img_shape))) (\<lambda>w1.
                 ebind (setitem w 1 w1) (\<lambda>w. Inr (2, h, w)))))))))))
            else Inr (1, h, w))
           (\<lambda>(di, h, w). ratio_loop img_shape sizes di ratios (h, w)))))))))"

text \<open>
  \<open>np.mgrid[0:H, 0:W]\<close> gives two arrays of shape (H, W): the row index and the column
  index of each cell (no cell when a bound is negative).
\<close>

definition mgrid_y :: "int \<Rightarrow> int \<Rightarrow> real list list" where
  "mgrid_y H W = map (\<lambda>i. map (\<lambda>j. real i) [0..<nat W]) [0..<nat H]"

definition mgrid_x :: "int \<Rightarrow> int \<Rightarrow> real list list" where
  "mgrid_x H W = map (\<lambda>i. map (\<lambda>j. real j) [0..<nat W]) [0..<nat H]"

text \<open>\<open>np.zeros((H, W, num_anchors, 4))\<close> refuses a negative dimension.\<close>

definition np_zeros :: "int \<Rightarrow> int \<Rightarrow> nat \<Rightarrow> error + real list list list list" where
  "np_zeros H W n =
     (if H < 0 \<or> W < 0 then Inl ValueError
      else Inr (replicate (nat H) (replicate (nat W) (replicate n (replicate 4 0)))))"

text \<open>
  The slice assignments \<open>anchors[:, :, di, c] = g\<close> for an array \<open>g\<close> of shape (H, W)
  and \<open>anchors[:, :, di, c] = v\<close> for a number \<open>v\<close>, which the float array stores as a
  float.
\<close>

definition assign_grid ::
  "nat \<Rightarrow> nat \<Rightarrow> real list list \<Rightarrow> real list list list list \<Rightarrow> real list list list list" where
  "assign_grid di c g anchors =
     map2 (\<lambda>grow arow. map2 (\<lambda>v cell. cell[di := (cell ! di)[c := v]]) grow arow) g anchors"

definition assign_scalar ::
  "nat \<Rightarrow> nat \<Rightarrow> real \<Rightarrow> real list list list list \<Rightarrow> real list list list list" where
  "assign_scalar di c v anchors = map (map (\<lambda>cell. cell[di := (cell ! di)[c := v]])) anchors"

definition fill_anchor ::
  "real list list \<Rightarrow> real list list \<Rightarrow> pynum list \<Rightarrow> pynum list \<Rightarrow> nat
     \<Rightarrow> real list list list list \<Rightarrow> real list list list list" where
  "fill_anchor x y w h di anchors =
     assign_scalar di 3 (to_float (h ! di)) (assign_scalar di 2 (to_float (w ! di))
       (assign_grid di 1 y (assign_grid di 0 x anchors)))"

definition ssd_anchor_one_layer ::
  "int \<times> int \<Rightarrow> int \<times> int \<Rightarrow> pynum list \<Rightarrow> real list \<Rightarrow> real \<Rightarrow> real
     \<Rightarrow> error + real list list" where
  "ssd_anchor_one_layer img_shape feat_shape sizes ratios step offset =
     (let y = mgrid_y (fst feat_shape) (snd feat_shape);
          x = mgrid_x (fst feat_shape) (snd feat_shape);
          y = map (map (\<lambda>v. (v + offset) * step / real_of_int (fst img_shape))) y;
          x = map (map (\<lambda>v. (v + offset) * step / real_of_int (snd img_shape))) x;
          num_anchors = length sizes + length ratios
      in ebind (anchor_hw img_shape sizes ratios) (\<lambda>(h, w).
         ebind (np_zeros (fst feat_shape) (snd feat_shape) num_anchors) (\<lambda>anchors.
           Inr (concat (concat (fold (fill_anchor x y w h) [0..<num_anchors] anchors))))))"

text \<open>
  The loop \<open>for i, s in enumerate(layers_shape)\<close> of \<open>ssd_anchors_all_layers\<close>, and
  \<open>np.vstack\<close>, which refuses an empty list of arrays.
\<close>

fun layers_loop ::
  "int \<times> int \<Rightarrow> pynum list list \<Rightarrow> real list list \<Rightarrow> real list \<Rightarrow> real \<Rightarrow> nat
     \<Rightarrow> (int \<times> int) list \<Rightarrow> real list list list \<Rightarrow> error + real list list list" where
  "layers_loop img_shape anchor_sizes anchor_ratios anchor_steps offset i [] layers_anchors =
     Inr layers_anchors"
| "layers_loop img_shape anchor_sizes anchor_ratios anchor_steps offset i (s # layers_shape)
       layers_anchors =
     ebind (getitem anchor_sizes i) (\<lambda>sizes.
     ebind (getitem anchor_ratios i) (\<lambda>ratios.
     ebind (getitem anchor_steps i) (\<lambda>step.
     ebind (ssd_anchor_one_layer img_shape s sizes ratios step offset) (\<lambda>anchor_bboxes.
       layers_loop img_shape anchor_sizes anchor_ratios anchor_steps offset (Suc i)
         layers_shape (layers_anchors @ [anchor_bboxes])))))"

definition np_vstack :: "real list list list \<Rightarrow> error + real list list" where
  "np_vstack arrays = (if arrays = [] then Inl ValueError else Inr (concat arrays))"

definition ssd_anchors_all_layers ::
  "int \<times> int \<Rightarrow> (int \<times> int) list \<Rightarrow> pynum list list \<Rightarrow> real list list \<Rightarrow> real list \<Rightarrow> real
     \<Rightarrow> error + real list list" where
  "ssd_anchors_all_layers img_shape layers_shape anchor_sizes anchor_ratios anchor_steps offset =
     ebind (layers_loop img_shape anchor_sizes anchor_ratios anchor_steps offset 0
              layers_shape [])
       np_vstack"

section \<open>The size bounds: \<open>ssd_size_bounds_to_values\<close>\<close>

text \<open>
  \<open>int(x)\<close> truncates a float towards zero; \<open>/\<close> on two Python 2 integers is floor
  division; \<open>range(start, stop, step)\<close> refuses a zero step. The float product
  \<open>size_bounds[k] * 100\<close> is rounded before it is truncated, and the rounding can change
  the integer (the float \<open>0.29 * 100\<close> is just below 29), so that product is the
  parameter \<open>fmul\<close>.
\<close>

definition py_int :: "real \<Rightarrow> int" where
  "py_int x = (if 0 \<le> x then \<lfloor>x\<rfloor> else \<lceil>x\<rceil>)"

definition py_floordiv :: "int \<Rightarrow> int \<Rightarrow> error + int" where
  "py_floordiv a b = (if b = 0 then Inl ZeroDivisionError else Inr (a div b))"

definition py_range :: "int \<Rightarrow> int \<Rightarrow> int \<Rightarrow> error + int list" where
  "py_range start stop step =
     (if step = 0 then Inl ValueError
      else if 0 < step
      then Inr (map (\<lambda>k. start + int k * step) [0..<nat ((stop - start + step - 1) div step)])
      else Inr (map (\<lambda>k. start + int k * step)
                  [0..<nat ((start - stop - step - 1) div (- step))]))"

text \<open>
  The function starts with \<open>assert img_shape[0] == img_shape[1]\<close>; the first entry of
  its result is the fixed pair \<open>[img_size * 0.04, img_size * 0.1]\<close>.
\<close>

definition ssd_size_bounds_to_values ::
  "(real \<Rightarrow> real \<Rightarrow> real) \<Rightarrow> real list \<Rightarrow> int \<Rightarrow> int \<times> int
     \<Rightarrow> error + (real \<times> real) list" where
  "ssd_size_bounds_to_values fmul size_bounds n_feat_layers img_shape =
     (if fst img_shape \<noteq> snd img_shape then Inl AssertionError
      else
        let img_size = real_of_int (fst img_shape)
        in ebind (getitem size_bounds 0) (\<lambda>b0.
           let min_ratio = py_int (fmul b0 100)
           in ebind (getitem size_bounds 1) (\<lambda>b1.
              let max_ratio = py_int (fmul b1 100)
              in ebind (py_floordiv (max_ratio - min_ratio) (n_feat_layers - 2)) (\<lambda>step.
                 ebind (py_range min_ratio (max_ratio + 1) step) (\<lambda>ratios.
                   Inr ((img_size * 0.04, img_size * 0.1)
                        # map (\<lambda>ratio. (img_size * real_of_int ratio / 100,
                                        img_size * real_of_int (ratio + step) / 100))
                            ratios))))))"

section \<open>The quantities the specification names\<close>

subsection \<open>Hard-negative mining and the two losses\<close>

text \<open>
  The counts of positive and negative anchors of an image and of positive anchors of the
  batch, the target \<open>n_neg = floor (min (negatives) (n_pos * negative_ratio))\<close>, the
  \<open>k\<close>-th smallest entry of a list (counted from 1), and the selection rule: a negative
  anchor whose mining value is at most the \<open>n_neg\<close>-th smallest mining value of the image.
\<close>

definition n_pos_img :: "nat \<Rightarrow> (nat \<Rightarrow> nat \<Rightarrow> int) \<Rightarrow> nat \<Rightarrow> nat" where
  "n_pos_img A gclasses i = length (filter (\<lambda>j. 0 < gclasses i j) [0..<A])"

definition n_neg_img :: "nat \<Rightarrow> (nat \<Rightarrow> nat \<Rightarrow> int) \<Rightarrow> nat \<Rightarrow> nat" where
  "n_neg_img A gclasses i = length (filter (\<lambda>j. \<not> 0 < gclasses i j) [0..<A])"

definition n_positives :: "nat \<Rightarrow> nat \<Rightarrow> (nat \<Rightarrow> nat \<Rightarrow> int) \<Rightarrow> nat" where
  "n_positives B A gclasses = sum_list (map (n_pos_img A gclasses) [0..<B])"

definition n_neg_target :: "nat \<Rightarrow> (nat \<Rightarrow> nat \<Rightarrow> int) \<Rightarrow> real \<Rightarrow> nat \<Rightarrow> int" where
  "n_neg_target A gclasses negative_ratio i =
     \<lfloor>min (real (n_neg_img A gclasses i)) (real (n_pos_img A gclasses i) * negative_ratio)\<rfloor>"

definition kth_smallest :: "nat \<Rightarrow> real list \<Rightarrow> real" where
  "kth_smallest k xs = sort xs ! (k - 1)"

definition hard_negative ::
  "nat \<Rightarrow> (nat \<Rightarrow> nat \<Rightarrow> nat \<Rightarrow> real) \<Rightarrow> (nat \<Rightarrow> nat \<Rightarrow> int) \<Rightarrow> real \<Rightarrow> nat \<Rightarrow> nat \<Rightarrow> bool" where
  "hard_negative A confidences gclasses negative_ratio i j =
     (\<not> 0 < gclasses i j \<and>
      nvalues confidences gclasses i j
        \<le> kth_smallest (nat (n_neg_target A gclasses negative_ratio i))
             (map (nvalues confidences gclasses i) [0..<A]))"

text \<open>
  The per-anchor weight of the classification loss: 1 for a positive anchor, 1 for a
  selected hard negative of an image that has a positive anchor, 0 for any other anchor.
\<close>

definition anchor_weight ::
  "nat \<Rightarrow> (nat \<Rightarrow> nat \<Rightarrow> nat \<Rightarrow> real) \<Rightarrow> (nat \<Rightarrow> nat \<Rightarrow> int) \<Rightarrow> real \<Rightarrow> nat \<Rightarrow> nat \<Rightarrow> real" where
  "anchor_weight A confidences gclasses negative_ratio i j =
     (if 0 < gclasses i j then 1
      else if 0 < n_pos_img A gclasses i \<and> hard_negative A confidences gclasses negative_ratio i j
      then 1 else 0)"


subsection \<open>The anchor geometry\<close>

text \<open>
  \<open>size_over s d\<close> is the value of \<open>s / d\<close> for a size \<open>s\<close> and an image dimension
  \<open>d\<close> that is not zero: the true quotient for a float size, the quotient rounded down
  for an integer size.
\<close>

fun size_over :: "pynum \<Rightarrow> int \<Rightarrow> pynum" where
  "size_over (PyInt a) d = PyInt (a div d)"
| "size_over (PyFloat x) d = PyFloat (x / real_of_int d)"

text \<open>
  The shapes of one cell as (width, height) pairs in the specification's order: the first
  size over the image width and height, the geometric mean of the two sizes when there is
  a second one, then one shape per ratio; the anchors of a level, cell by cell in
  row-major order, each as \<open>[center_x, center_y, width, height]\<close>; and the anchors of all
  levels in level order. For a float size \<open>s0\<close> the first shape is
  \<open>(s0 / image_width, s0 / image_height)\<close>, as the specification has it.
\<close>

definition cell_shapes :: "int \<times> int \<Rightarrow> pynum list \<Rightarrow> real list \<Rightarrow> (real \<times> real) list" where
  "cell_shapes img_shape sizes ratios =
     (let s0 = sizes ! 0;
          ih = real_of_int (fst img_shape);
          iw = real_of_int (snd img_shape);
          rh = to_float (size_over s0 (fst img_shape));
          rw = to_float (size_over s0 (snd img_shape));
          m = sqrt (to_float s0 * to_float (sizes ! 1))
      in (rw, rh)
         # (if length sizes > 1 then [(m / iw, m / ih)] else [])
         @ map (\<lambda>r. (rw * sqrt r, rh / sqrt r)) ratios)"

definition level_anchors ::
  "int \<times> int \<Rightarrow> int \<times> int \<Rightarrow> (real \<times> real) list \<Rightarrow> real \<Rightarrow> real \<Rightarrow> real list list" where
  "level_anchors img_shape feat_shape shapes step offset =
     concat (map (\<lambda>i. concat (map (\<lambda>j. map (\<lambda>(w, h).
         [(real j + offset) * step / real_of_int (snd img_shape),
          (real i + offset) * step / real_of_int (fst img_shape), w, h]) shapes)
       [0..<nat (snd feat_shape)])) [0..<nat (fst feat_shape)])"

definition anchor_set ::
  "int \<times> int \<Rightarrow> (int \<times> int) list \<Rightarrow> pynum list list \<Rightarrow> real list list \<Rightarrow> real list \<Rightarrow> real
     \<Rightarrow> real list list" where
  "anchor_set img_shape layers_shape anchor_sizes anchor_ratios anchor_steps offset =
     concat (map (\<lambda>l. level_anchors img_shape (layers_shape ! l)
                        (cell_shapes img_shape (anchor_sizes ! l) (anchor_ratios ! l))
                        (anchor_steps ! l) offset)
               [0..<length layers_shape])"

text \<open>
  A level the code accepts: image height and width not zero, a positive feature shape,
  one size or two sizes with a product that has a square root, and positive ratios. A
  configuration is valid when it has a level, the per-level lists are as long as the list
  of feature shapes, and every level is accepted. The image need not be square.
\<close>

definition valid_level :: "int \<times> int \<Rightarrow> int \<times> int \<Rightarrow> pynum list \<Rightarrow> real list \<Rightarrow> bool" where
  "valid_level img_shape feat_shape sizes ratios =
     (fst img_shape \<noteq> 0 \<and> snd img_shape \<noteq> 0 \<and> 0 < fst feat_shape \<and> 0 < snd feat_shape
      \<and> (length sizes = 1
         \<or> length sizes = 2 \<and> 0 \<le> to_float (sizes ! 0) * to_float (sizes ! 1))
      \<and> (\<forall>r \<in> set ratios. 0 < r))"

definition valid_config ::
  "int \<times> int \<Rightarrow> (int \<times> int) list \<Rightarrow> pynum list list \<Rightarrow> real list list \<Rightarrow> real list \<Rightarrow> bool" where
  "valid_config img_shape layers_shape anchor_sizes anchor_ratios anchor_steps =
     (layers_shape \<noteq> []
      \<and> length anchor_sizes = length layers_shape
      \<and> length anchor_ratios = length layers_shape
      \<and> length anchor_steps = length layers_shape
      \<and> (\<forall>l < length layers_shape.
            valid_level img_shape (layers_shape ! l) (anchor_sizes ! l) (anchor_ratios ! l)))"

section \<open>Facts about the loss\<close>

lemma ebind_Inr [simp]: "ebind (Inr v) f = f v" by (simp add: ebind_def)
lemma ebind_Inl [simp]: "ebind (Inl e) f = Inl e" by (simp add: ebind_def)

lemma tf_stack_all_Inr:
  "tf_stack (map (\<lambda>x. Inr (f x)) xs) = Inr (map f xs)"
  by (induction xs) simp_all

lemma tf_stack_cong_Inr:
  assumes "\<And>x. x \<in> set xs \<Longrightarrow> g x = Inr (f x)"
  shows "tf_stack (map g xs) = Inr (map f xs)"
proof -
  have "tf_stack (map g xs) = tf_stack (map (\<lambda>x. Inr (f x)) xs)"
    by (rule arg_cong [where f = tf_stack]) (simp add: assms)
  then show ?thesis by (simp only: tf_stack_all_Inr)
qed

lemma reduce_sum_zero:
  assumes "\<And>j. j < n \<Longrightarrow> v j = 0"
  shows "reduce_sum n v = 0"
proof -
  have "sum_list (map v [0..<n]) = sum_list (map (\<lambda>_. 0) [0..<n])"
    by (rule arg_cong [where f = sum_list]) (simp add: assms)
  then show ?thesis by (simp add: reduce_sum_def)
qed

lemma reduce_sum_cong:
  assumes "\<And>j. j < n \<Longrightarrow> v j = u j"
  shows "reduce_sum n v = reduce_sum n u"
proof -
  have "sum_list (map v [0..<n]) = sum_list (map u [0..<n])"
    by (rule arg_cong [where f = sum_list]) (simp add: assms)
  then show ?thesis by (simp add: reduce_sum_def)
qed

lemma reduce_sum2_cong:
  assumes "\<And>i j. i < B \<Longrightarrow> j < A \<Longrightarrow> t i j = u i j"
  shows "reduce_sum2 B A t = reduce_sum2 B A u"
  unfolding reduce_sum2_def
  by (intro reduce_sum_cong) (simp add: assms)

lemma sum_list_cast_float:
  "sum_list (map (\<lambda>j. cast_float (P j)) xs) = real (length (filter P xs))"
  by (induction xs) (simp_all add: cast_float_def)

text \<open>The float sums of the masks are the counts, and \<open>N\<close> is the number of positives.\<close>

lemma reduce_sum_pos_mask:
  "reduce_sum A (\<lambda>j. cast_float (pos_mask gclasses i j)) = real (n_pos_img A gclasses i)"
  by (simp add: reduce_sum_def n_pos_img_def pos_mask_def sum_list_cast_float)

lemma reduce_sum_neg_mask:
  "reduce_sum A (\<lambda>j. cast_float (neg_mask gclasses i j)) = real (n_neg_img A gclasses i)"
  by (simp add: reduce_sum_def n_neg_img_def neg_mask_def pos_mask_def sum_list_cast_float)

lemma N_count:
  "reduce_sum2 B A (float_pos_mask gclasses) = real (n_positives B A gclasses)"
proof -
  have "reduce_sum2 B A (float_pos_mask gclasses)
      = sum_list (map (\<lambda>i. real (n_pos_img A gclasses i)) [0..<B])"
    unfolding reduce_sum2_def float_pos_mask_def reduce_sum_pos_mask
    by (simp add: reduce_sum_def)
  also have "\<dots> = real (n_positives B A gclasses)"
    by (simp add: n_positives_def sum_list_of_nat [symmetric] comp_def)
  finally show ?thesis .
qed

lemma N_zero:
  assumes "\<And>i j. i < B \<Longrightarrow> j < A \<Longrightarrow> gclasses i j \<le> 0"
  shows "reduce_sum2 B A (float_pos_mask gclasses) = 0"
  unfolding reduce_sum2_def
  by (intro reduce_sum_zero) (simp add: float_pos_mask_def pos_mask_def cast_float_def not_less assms)

lemma n_neg_img_le: "n_neg_img A gclasses i \<le> A"
  unfolding n_neg_img_def
  by (rule order_trans [OF length_filter_le]) simp

lemma selected_img_neg_no_pos:
  assumes "reduce_sum A (\<lambda>j. cast_float (pos_mask gclasses i j)) = 0"
  shows "selected_img_neg A confidences gclasses negative_ratio i = Inr (\<lambda>j. 0)"
  using assms by (simp add: selected_img_neg_def mining_no_pos_def Let_def)

lemma cls_weight_no_pos:
  assumes "\<And>i j. i < B \<Longrightarrow> j < A \<Longrightarrow> gclasses i j \<le> 0"
  shows "\<exists>w. cls_weight B A confidences gclasses negative_ratio = Inr w"
proof -
  have "\<And>i. i \<in> set [0..<B] \<Longrightarrow>
      selected_img_neg A confidences gclasses negative_ratio i = Inr (\<lambda>j. 0)"
    by (intro selected_img_neg_no_pos reduce_sum_zero)
       (simp add: pos_mask_def cast_float_def not_less assms)
  then have "tf_stack (map (selected_img_neg A confidences gclasses negative_ratio) [0..<B])
      = Inr (map (\<lambda>i. (\<lambda>j. 0)) [0..<B])"
    by (rule tf_stack_cong_Inr)
  then show ?thesis by (simp add: cls_weight_def selected_neg_def)
qed

text \<open>
  The largest entries of the negated values, in descending order, are the negated
  smallest values in ascending order; the last of the first \<open>k\<close> is the \<open>k\<close>-th smallest.
\<close>

lemma rev_sort_uminus: "rev (sort (map uminus xs)) = map uminus (sort (xs :: real list))"
proof -
  have "sort (map uminus xs) = rev (map uminus (sort xs))"
  proof (rule properties_for_sort)
    show "mset (rev (map uminus (sort xs))) = mset (map uminus xs)" by simp
    show "sorted (rev (map uminus (sort xs)))"
      by (simp add: sorted_wrt_rev sorted_wrt_map)
  qed
  then show ?thesis by simp
qed

lemma top_k_neg:
  assumes "1 \<le> k" "k \<le> int (length xs)"
  shows "top_k (map uminus xs) k = Inr (take (nat k) (map uminus (sort xs)))"
  using assms by (simp add: top_k_def rev_sort_uminus)

lemma last_elem_top_k_neg:
  assumes "1 \<le> k" "k \<le> int (length xs)"
  shows "last_elem (take (nat k) (map uminus (sort xs))) = Inr (- kth_smallest (nat k) xs)"
proof -
  let ?v = "take (nat k) (map uminus (sort xs))"
  have len: "length ?v = nat k" using assms by simp
  have ne: "?v \<noteq> []" using len assms by (cases "?v") auto
  have "last ?v = ?v ! (nat k - 1)"
    using last_conv_nth [OF ne] len by simp
  also have "\<dots> = map uminus (sort xs) ! (nat k - 1)"
    using assms by simp
  also have "\<dots> = - (sort xs ! (nat k - 1))"
    using assms by (intro nth_map) simp
  finally have "last ?v = - kth_smallest (nat k) xs"
    by (simp add: kth_smallest_def)
  then show ?thesis using ne by (simp add: last_elem_def)
qed

text \<open>
  With a positive anchor in the image and a target of at least one negative, the mining
  selects exactly the hard negatives.
\<close>

lemma selected_img_neg_has_pos:
  assumes pos: "0 < n_pos_img A gclasses i"
    and k: "1 \<le> n_neg_target A gclasses negative_ratio i"
  shows "selected_img_neg A confidences gclasses negative_ratio i
           = Inr (\<lambda>j. cast_float (hard_negative A confidences gclasses negative_ratio i j))"
proof -
  let ?m = "min (real (n_neg_img A gclasses i)) (real (n_pos_img A gclasses i) * negative_ratio)"
  let ?k = "n_neg_target A gclasses negative_ratio i"
  let ?xs = "map (nvalues confidences gclasses i) [0..<A]"
  have m1: "1 \<le> ?m" using k unfolding n_neg_target_def by linarith
  then have "cast_int32 ?m = ?k" by (simp add: cast_int32_def n_neg_target_def)
  then have cast: "cast_int32 (min (reduce_sum A (\<lambda>j. cast_float (neg_mask gclasses i j)))
      (real (n_pos_img A gclasses i) * negative_ratio)) = ?k"
    by (simp only: reduce_sum_neg_mask)
  have "?m \<le> real A" using n_neg_img_le [of A gclasses i] by simp
  then have "?k \<le> int A" unfolding n_neg_target_def by linarith
  then have kA: "?k \<le> int (length ?xs)" by simp
  have neg: "map (\<lambda>j. - nvalues confidences gclasses i j) [0..<A] = map uminus ?xs"
    by (simp add: comp_def)
  have "mining_has_pos A negative_ratio (nvalues confidences gclasses i) (neg_mask gclasses i)
          (\<lambda>j. cast_float (neg_mask gclasses i j)) (real (n_pos_img A gclasses i))
        = Inr (\<lambda>j. cast_float (neg_mask gclasses i j
                \<and> nvalues confidences gclasses i j \<le> - (- kth_smallest (nat ?k) ?xs)))"
    unfolding mining_has_pos_def Let_def
    by (simp only: cast neg top_k_neg [OF k kA] last_elem_top_k_neg [OF k kA] ebind_Inr)
  also have "\<dots> = Inr (\<lambda>j. cast_float (hard_negative A confidences gclasses negative_ratio i j))"
    by (simp add: hard_negative_def neg_mask_def pos_mask_def)
  finally show ?thesis
    using pos by (simp add: selected_img_neg_def Let_def reduce_sum_pos_mask)
qed

lemma selected_img_neg_cases:
  assumes "0 < n_pos_img A gclasses i \<longrightarrow> 1 \<le> n_neg_target A gclasses negative_ratio i"
  shows "selected_img_neg A confidences gclasses negative_ratio i
           = Inr (\<lambda>j. if 0 < n_pos_img A gclasses i
                       then cast_float (hard_negative A confidences gclasses negative_ratio i j)
                       else 0)"
proof (cases "0 < n_pos_img A gclasses i")
  case True
  then show ?thesis using assms by (simp add: selected_img_neg_has_pos)
next
  case False
  then have "reduce_sum A (\<lambda>j. cast_float (pos_mask gclasses i j)) = 0"
    by (simp add: reduce_sum_pos_mask)
  then show ?thesis using False by (simp add: selected_img_neg_no_pos)
qed

lemma cls_weight_formula:
  assumes "\<And>i. i < B \<Longrightarrow> 0 < n_pos_img A gclasses i
             \<Longrightarrow> 1 \<le> n_neg_target A gclasses negative_ratio i"
  shows "\<exists>w. cls_weight B A confidences gclasses negative_ratio = Inr w
           \<and> (\<forall>i<B. \<forall>j. w i j = anchor_weight A confidences gclasses negative_ratio i j)"
proof -
  let ?sel = "\<lambda>i j. if 0 < n_pos_img A gclasses i
                then cast_float (hard_negative A confidences gclasses negative_ratio i j)
                else 0"
  have "\<And>i. i \<in> set [0..<B] \<Longrightarrow>
      selected_img_neg A confidences gclasses negative_ratio i = Inr (?sel i)"
    using assms by (intro selected_img_neg_cases) simp
  then have "tf_stack (map (selected_img_neg A confidences gclasses negative_ratio) [0..<B])
      = Inr (map ?sel [0..<B])"
    by (rule tf_stack_cong_Inr)
  then have w: "cls_weight B A confidences gclasses negative_ratio
      = Inr (\<lambda>i j. (map ?sel [0..<B] ! i) j + float_pos_mask gclasses i j)"
    by (simp add: cls_weight_def selected_neg_def)
  have "\<forall>i<B. \<forall>j. (map ?sel [0..<B] ! i) j + float_pos_mask gclasses i j
      = anchor_weight A confidences gclasses negative_ratio i j"
    by (simp add: anchor_weight_def float_pos_mask_def pos_mask_def cast_float_def
        hard_negative_def)
  with w show ?thesis by blast
qed

lemma tf_div_pos: "0 < b \<Longrightarrow> tf_div a b = Finite (a / b)"
  by (simp add: tf_div_def)

lemma xent_tensor_ok:
  assumes "\<And>i j. i < B \<Longrightarrow> j < A \<Longrightarrow> xent (logits i j) (gclasses i j) = Inr (x i j)"
  shows "\<exists>ce. xent_tensor xent B A logits gclasses = Inr ce
           \<and> (\<forall>i<B. \<forall>j<A. ce i j = x i j)"
proof -
  have row: "\<And>i. i \<in> set [0..<B] \<Longrightarrow>
      tf_stack (map (\<lambda>j. xent (logits i j) (gclasses i j)) [0..<A]) = Inr (map (x i) [0..<A])"
    by (intro tf_stack_cong_Inr) (simp add: assms)
  have "tf_stack (map (\<lambda>i. tf_stack (map (\<lambda>j. xent (logits i j) (gclasses i j)) [0..<A]))
                   [0..<B])
      = Inr (map (\<lambda>i. map (x i) [0..<A]) [0..<B])"
    using row by (rule tf_stack_cong_Inr)
  then have "xent_tensor xent B A logits gclasses
      = Inr (\<lambda>i j. map (\<lambda>i. map (x i) [0..<A]) [0..<B] ! i ! j)"
    by (simp add: xent_tensor_def)
  moreover have "\<forall>i<B. \<forall>j<A. map (\<lambda>i. map (x i) [0..<A]) [0..<B] ! i ! j = x i j"
    by simp
  ultimately show ?thesis by blast
qed

text \<open>
  With a positive anchor in the batch, a target of at least one negative in every image
  that has a positive anchor, and a cross-entropy for every anchor, the classification
  loss is the weighted sum of the cross-entropies divided by the number of positives.
\<close>

lemma cls_loss_formula:
  assumes N: "0 < n_positives B A gclasses"
    and ok: "\<And>i. i < B \<Longrightarrow> 0 < n_pos_img A gclasses i
             \<Longrightarrow> 1 \<le> n_neg_target A gclasses negative_ratio i"
    and xe: "\<And>i j. i < B \<Longrightarrow> j < A \<Longrightarrow> xent (logits i j) (gclasses i j) = Inr (x i j)"
  shows "cls_loss xent B A confidences logits gclasses negative_ratio
           = Inr (Finite (reduce_sum2 B A (\<lambda>i j. x i j
                    * anchor_weight A confidences gclasses negative_ratio i j)
                  / real (n_positives B A gclasses)))"
proof -
  obtain w where w: "cls_weight B A confidences gclasses negative_ratio = Inr w"
    and eq: "\<forall>i<B. \<forall>j. w i j = anchor_weight A confidences gclasses negative_ratio i j"
    using cls_weight_formula [OF ok, of B confidences] by blast
  have "\<exists>ce. xent_tensor xent B A logits gclasses = Inr ce
           \<and> (\<forall>i<B. \<forall>j<A. ce i j = x i j)"
    by (rule xent_tensor_ok) (rule xe)
  then obtain ce where ce: "xent_tensor xent B A logits gclasses = Inr ce"
    and cx: "\<forall>i<B. \<forall>j<A. ce i j = x i j"
    by blast
  have "reduce_sum2 B A (\<lambda>i j. ce i j * w i j)
      = reduce_sum2 B A (\<lambda>i j. x i j
          * anchor_weight A confidences gclasses negative_ratio i j)"
    by (rule reduce_sum2_cong) (simp add: eq cx)
  then show ?thesis using N by (simp add: cls_loss_def w ce N_count tf_div_pos)
qed






section \<open>Facts about the anchors\<close>

lemma py_div_int: "d \<noteq> 0 \<Longrightarrow> py_div s (PyInt d) = Inr (size_over s d)"
  by (cases s) simp_all

lemma py_div_float: "x \<noteq> 0 \<Longrightarrow> py_div a (PyFloat x) = Inr (PyFloat (to_float a / x))"
  by (cases a) simp_all

lemma py_mul_float: "py_mul a (PyFloat x) = PyFloat (to_float a * x)"
  by (cases a) simp_all

lemma to_float_py_mul: "to_float (py_mul a b) = to_float a * to_float b"
  by (cases a; cases b) simp_all

lemma ratio_loop_ok:
  assumes "sizes \<noteq> []" "fst img_shape \<noteq> 0" "snd img_shape \<noteq> 0" "\<forall>r \<in> set ratios. 0 < r"
    and "k + length ratios \<le> length h" "length w = length h"
  shows "ratio_loop img_shape sizes k ratios (h, w)
     = Inr (take k h
              @ map (\<lambda>r. PyFloat (to_float (size_over (sizes ! 0) (fst img_shape)) / sqrt r))
                  ratios
              @ drop (k + length ratios) h,
            take k w
              @ map (\<lambda>r. PyFloat (to_float (size_over (sizes ! 0) (snd img_shape)) * sqrt r))
                  ratios
              @ drop (k + length ratios) w)"
  using assms
proof (induction ratios arbitrary: k h w)
  case Nil
  then show ?case by simp
next
  case (Cons r ratios)
  let ?hv = "PyFloat (to_float (size_over (sizes ! 0) (fst img_shape)) / sqrt r)"
  let ?wv = "PyFloat (to_float (size_over (sizes ! 0) (snd img_shape)) * sqrt r)"
  have k: "k < length h" "k < length w" using Cons.prems by simp_all
  have r: "0 < r" using Cons.prems by simp
  then have sr: "sqrt r \<noteq> 0" by simp
  have step: "ratio_loop img_shape sizes k (r # ratios) (h, w)
      = ratio_loop img_shape sizes (Suc k) ratios (h[k := ?hv], w[k := ?wv])"
    using Cons.prems(1-3) k r sr
    by (simp add: getitem_def py_div_int py_div_float py_mul_float math_sqrt_def setitem_def)
  have ih: "ratio_loop img_shape sizes (Suc k) ratios (h[k := ?hv], w[k := ?wv])
     = Inr (take (Suc k) (h[k := ?hv])
              @ map (\<lambda>r. PyFloat (to_float (size_over (sizes ! 0) (fst img_shape)) / sqrt r))
                  ratios
              @ drop (Suc k + length ratios) (h[k := ?hv]),
            take (Suc k) (w[k := ?wv])
              @ map (\<lambda>r. PyFloat (to_float (size_over (sizes ! 0) (snd img_shape)) * sqrt r))
                  ratios
              @ drop (Suc k + length ratios) (w[k := ?wv]))"
    using Cons.prems by (intro Cons.IH) simp_all
  have th: "take (Suc k) (h[k := ?hv]) = take k h @ [?hv]"
    using k by (simp add: take_Suc_conv_app_nth)
  have tw: "take (Suc k) (w[k := ?wv]) = take k w @ [?wv]"
    using k by (simp add: take_Suc_conv_app_nth)
  show ?case unfolding step ih th tw by simp
qed

text \<open>
  The two lists for one size and for two sizes, integers or floats: the first entry is
  \<open>sizes[0] / img_shape[k]\<close> as Python 2 divides, and every ratio entry is built from
  that quotient.
\<close>

lemma anchor_hw_one:
  assumes img: "fst img_shape \<noteq> 0" "snd img_shape \<noteq> 0" and ratios: "\<forall>r \<in> set ratios. 0 < r"
  shows "anchor_hw img_shape [s0] ratios
     = Inr (size_over s0 (fst img_shape)
              # map (\<lambda>r. PyFloat (to_float (size_over s0 (fst img_shape)) / sqrt r)) ratios,
            size_over s0 (snd img_shape)
              # map (\<lambda>r. PyFloat (to_float (size_over s0 (snd img_shape)) * sqrt r)) ratios)"
proof -
  let ?n = "Suc (length ratios)"
  let ?h = "(replicate ?n (PyInt 0))[0 := size_over s0 (fst img_shape)]"
  let ?w = "(replicate ?n (PyInt 0))[0 := size_over s0 (snd img_shape)]"
  have loop: "ratio_loop img_shape [s0] 1 ratios (?h, ?w)
      = Inr (take 1 ?h
              @ map (\<lambda>r. PyFloat (to_float (size_over ([s0] ! 0) (fst img_shape)) / sqrt r))
                  ratios
              @ drop (1 + length ratios) ?h,
            take 1 ?w
              @ map (\<lambda>r. PyFloat (to_float (size_over ([s0] ! 0) (snd img_shape)) * sqrt r))
                  ratios
              @ drop (1 + length ratios) ?w)"
    using img ratios by (intro ratio_loop_ok) simp_all
  have "anchor_hw img_shape [s0] ratios = ratio_loop img_shape [s0] 1 ratios (?h, ?w)"
    using img by (simp add: anchor_hw_def Let_def getitem_def py_div_int setitem_def)
  also note loop
  finally show ?thesis by simp
qed

lemma anchor_hw_two:
  assumes img: "fst img_shape \<noteq> 0" "snd img_shape \<noteq> 0" and ratios: "\<forall>r \<in> set ratios. 0 < r"
    and prod: "0 \<le> to_float s0 * to_float s1"
  shows "anchor_hw img_shape [s0, s1] ratios
     = Inr (size_over s0 (fst img_shape)
              # PyFloat (sqrt (to_float s0 * to_float s1) / real_of_int (fst img_shape))
              # map (\<lambda>r. PyFloat (to_float (size_over s0 (fst img_shape)) / sqrt r)) ratios,
            size_over s0 (snd img_shape)
              # PyFloat (sqrt (to_float s0 * to_float s1) / real_of_int (snd img_shape))
              # map (\<lambda>r. PyFloat (to_float (size_over s0 (snd img_shape)) * sqrt r)) ratios)"
proof -
  let ?n = "Suc (Suc (length ratios))"
  let ?m = "sqrt (to_float s0 * to_float s1)"
  let ?h = "(replicate ?n (PyInt 0))[0 := size_over s0 (fst img_shape),
              1 := PyFloat (?m / real_of_int (fst img_shape))]"
  let ?w = "(replicate ?n (PyInt 0))[0 := size_over s0 (snd img_shape),
              1 := PyFloat (?m / real_of_int (snd img_shape))]"
  have loop: "ratio_loop img_shape [s0, s1] 2 ratios (?h, ?w)
      = Inr (take 2 ?h
              @ map (\<lambda>r. PyFloat (to_float (size_over ([s0, s1] ! 0) (fst img_shape)) / sqrt r))
                  ratios
              @ drop (2 + length ratios) ?h,
            take 2 ?w
              @ map (\<lambda>r. PyFloat (to_float (size_over ([s0, s1] ! 0) (snd img_shape)) * sqrt r))
                  ratios
              @ drop (2 + length ratios) ?w)"
    using img ratios by (intro ratio_loop_ok) simp_all
  have "anchor_hw img_shape [s0, s1] ratios = ratio_loop img_shape [s0, s1] 2 ratios (?h, ?w)"
    using img prod
    by (simp add: anchor_hw_def Let_def getitem_def py_div_int setitem_def math_sqrt_def
        to_float_py_mul)
  also note loop
  finally show ?thesis by (simp add: numeral_2_eq_2)
qed

lemma anchor_hw_ok:
  assumes "valid_level img_shape feat_shape sizes ratios"
  shows "\<exists>h w. anchor_hw img_shape sizes ratios = Inr (h, w)
           \<and> map to_float h = map snd (cell_shapes img_shape sizes ratios)
           \<and> map to_float w = map fst (cell_shapes img_shape sizes ratios)"
proof -
  have img: "fst img_shape \<noteq> 0" "snd img_shape \<noteq> 0" and ratios: "\<forall>r \<in> set ratios. 0 < r"
    using assms by (simp_all add: valid_level_def)
  consider (one) "length sizes = 1"
    | (two) "length sizes = 2" "0 \<le> to_float (sizes ! 0) * to_float (sizes ! 1)"
    using assms by (auto simp: valid_level_def)
  then show ?thesis
  proof cases
    case one
    then obtain s0 where s: "sizes = [s0]"
      by (cases sizes) auto
    show ?thesis
      unfolding s anchor_hw_one [OF img ratios]
      by (simp add: cell_shapes_def Let_def comp_def)
  next
    case two
    then obtain s0 s1 where s: "sizes = [s0, s1]"
      by (cases sizes; cases "tl sizes") auto
    have prod: "0 \<le> to_float s0 * to_float s1" using two s by simp
    show ?thesis
      unfolding s anchor_hw_two [OF img ratios prod]
      by (simp add: cell_shapes_def Let_def comp_def)
  qed
qed

lemma assign_grid_map:
  "assign_grid di c (map (\<lambda>i. map (g i) js) is) (map (\<lambda>i. map (cell i) js) is)
     = map (\<lambda>i. map (\<lambda>j. (cell i j)[di := (cell i j ! di)[c := g i j]]) js) is"
  by (simp add: assign_grid_def map2_map_map)

lemma assign_scalar_map:
  "assign_scalar di c v (map (\<lambda>i. map (cell i) js) is)
     = map (\<lambda>i. map (\<lambda>j. (cell i j)[di := (cell i j ! di)[c := v]]) js) is"
  by (simp add: assign_scalar_def comp_def)

lemma fill_anchor_map:
  "fill_anchor (map (\<lambda>i. map (gx i) js) is) (map (\<lambda>i. map (gy i) js) is) w h di
       (map (\<lambda>i. map (cell i) js) is)
     = map (\<lambda>i. map (\<lambda>j.
         (let c0 = cell i j;
              c1 = c0[di := (c0 ! di)[0 := gx i j]];
              c2 = c1[di := (c1 ! di)[1 := gy i j]];
              c3 = c2[di := (c2 ! di)[2 := to_float (w ! di)]]
          in c3[di := (c3 ! di)[3 := to_float (h ! di)]])) js) is"
  unfolding fill_anchor_def assign_grid_map assign_scalar_map Let_def ..

lemma update4:
  assumes "length (c :: real list) = 4"
  shows "c[0 := a, 1 := b, 2 := u, 3 := v] = [a, b, u, v]"
proof -
  obtain c0 c1 c2 c3 where "c = [c0, c1, c2, c3]"
    using assms by (auto simp: length_Suc_conv eval_nat_numeral)
  then show ?thesis by (simp add: eval_nat_numeral)
qed

lemma cell_fill:
  assumes "m < n"
  shows "(let c0 = map (\<lambda>k. if k < m then F k else replicate 4 (0::real)) [0..<n];
              c1 = c0[m := (c0 ! m)[0 := a]];
              c2 = c1[m := (c1 ! m)[1 := b]];
              c3 = c2[m := (c2 ! m)[2 := W m]]
          in c3[m := (c3 ! m)[3 := H m]])
       = map (\<lambda>k. if k < Suc m then (if k = m then [a, b, W m, H m] else F k)
                    else replicate 4 0) [0..<n]"
proof -
  have "(replicate 4 (0::real))[0 := a, 1 := b, 2 := W m, 3 := H m] = [a, b, W m, H m]"
    by (rule update4) simp
  then show ?thesis
    using assms by (intro nth_equalityI) (auto simp: Let_def nth_list_update)
qed

text \<open>After \<open>m\<close> rounds of the filling loop the first \<open>m\<close> anchors of every cell are set.\<close>

lemma fold_fill_anchor:
  assumes "m \<le> n"
  shows "fold (fill_anchor (map (\<lambda>i. map (gx i) js) is) (map (\<lambda>i. map (gy i) js) is) w h)
           [0..<m] (map (\<lambda>i. map (\<lambda>j. replicate n (replicate 4 0)) js) is)
     = map (\<lambda>i. map (\<lambda>j. map (\<lambda>k. if k < m then [gx i j, gy i j, to_float (w ! k), to_float (h ! k)]
                                       else replicate 4 0) [0..<n]) js) is"
  using assms
proof (induction m)
  case 0
  have "replicate n (replicate 4 (0::real)) = map (\<lambda>k. replicate 4 0) [0..<n]"
    by (simp add: map_replicate_const)
  then show ?case by simp
next
  case (Suc m)
  then have m: "m < n" by simp
  have cell: "\<And>i j. (let c0 = map (\<lambda>k. if k < m then [gx i j, gy i j, to_float (w ! k), to_float (h ! k)]
                                  else replicate 4 (0::real)) [0..<n];
              c1 = c0[m := (c0 ! m)[0 := gx i j]];
              c2 = c1[m := (c1 ! m)[1 := gy i j]];
              c3 = c2[m := (c2 ! m)[2 := to_float (w ! m)]]
          in c3[m := (c3 ! m)[3 := to_float (h ! m)]])
       = map (\<lambda>k. if k < Suc m then [gx i j, gy i j, to_float (w ! k), to_float (h ! k)] else replicate 4 0) [0..<n]"
  proof -
    fix i j
    have "(\<lambda>k. if k < Suc m
              then (if k = m then [gx i j, gy i j, to_float (w ! m), to_float (h ! m)]
                    else [gx i j, gy i j, to_float (w ! k), to_float (h ! k)])
              else replicate 4 (0::real))
        = (\<lambda>k. if k < Suc m then [gx i j, gy i j, to_float (w ! k), to_float (h ! k)] else replicate 4 0)"
      by auto
    then show "?thesis i j"
      using cell_fill [OF m, of "\<lambda>k. [gx i j, gy i j, to_float (w ! k), to_float (h ! k)]" "gx i j" "gy i j"
          "\<lambda>k. to_float (w ! k)" "\<lambda>k. to_float (h ! k)"]
      by simp
  qed
  have "fold (fill_anchor (map (\<lambda>i. map (gx i) js) is) (map (\<lambda>i. map (gy i) js) is) w h)
           [0..<Suc m] (map (\<lambda>i. map (\<lambda>j. replicate n (replicate 4 0)) js) is)
      = fill_anchor (map (\<lambda>i. map (gx i) js) is) (map (\<lambda>i. map (gy i) js) is) w h m
          (map (\<lambda>i. map (\<lambda>j. map (\<lambda>k. if k < m then [gx i j, gy i j, to_float (w ! k), to_float (h ! k)]
                                       else replicate 4 0) [0..<n]) js) is)"
    using Suc by simp
  also have "\<dots> = map (\<lambda>i. map (\<lambda>j. map (\<lambda>k. if k < Suc m then [gx i j, gy i j, to_float (w ! k), to_float (h ! k)]
                                       else replicate 4 0) [0..<n]) js) is"
    unfolding fill_anchor_map cell ..
  finally show ?case .
qed

lemma map_nth_pairs:
  assumes "map to_float w = map fst shapes" "map to_float h = map snd shapes"
  shows "map (\<lambda>k. [a, b, to_float (w ! k), to_float (h ! k)]) [0..<length shapes]
     = map (\<lambda>(w, h). [a, b, w, h]) shapes"
proof (rule nth_equalityI)
  show "length (map (\<lambda>k. [a, b, to_float (w ! k), to_float (h ! k)]) [0..<length shapes])
      = length (map (\<lambda>(w, h). [a, b, w, h]) shapes)"
    by simp
next
  fix k assume "k < length (map (\<lambda>k. [a, b, to_float (w ! k), to_float (h ! k)])
                            [0..<length shapes])"
  then have k: "k < length shapes" by simp
  have lw: "length w = length shapes" and lh: "length h = length shapes"
    using assms by (metis length_map)+
  have "to_float (w ! k) = map to_float w ! k" using k lw by simp
  then have fw: "to_float (w ! k) = fst (shapes ! k)" using assms(1) k by simp
  have "to_float (h ! k) = map to_float h ! k" using k lh by simp
  then have fh: "to_float (h ! k) = snd (shapes ! k)" using assms(2) k by simp
  show "map (\<lambda>k. [a, b, to_float (w ! k), to_float (h ! k)]) [0..<length shapes] ! k
      = map (\<lambda>(w, h). [a, b, w, h]) shapes ! k"
    using k fw fh by (simp add: case_prod_beta)
qed

lemma length_cell_shapes:
  "length sizes = 1 \<or> length sizes = 2 \<Longrightarrow>
     length (cell_shapes img_shape sizes ratios) = length sizes + length ratios"
  by (auto simp: cell_shapes_def Let_def)

lemma concat_concat_map: "concat (concat xsss) = concat (map concat xsss)"
  by (induction xsss) simp_all

text \<open>On an accepted level the code returns the anchors the specification describes.\<close>

lemma one_layer_ok:
  assumes "valid_level img_shape feat_shape sizes ratios"
  shows "ssd_anchor_one_layer img_shape feat_shape sizes ratios step offset
     = Inr (level_anchors img_shape feat_shape (cell_shapes img_shape sizes ratios) step offset)"
proof -
  let ?shapes = "cell_shapes img_shape sizes ratios"
  let ?n = "length sizes + length ratios"
  let ?is = "[0..<nat (fst feat_shape)]"
  let ?js = "[0..<nat (snd feat_shape)]"
  let ?gx = "\<lambda>(i::nat) (j::nat). (real j + offset) * step / real_of_int (snd img_shape)"
  let ?gy = "\<lambda>(i::nat) (j::nat). (real i + offset) * step / real_of_int (fst img_shape)"
  obtain h w where hw: "anchor_hw img_shape sizes ratios = Inr (h, w)"
    and mh: "map to_float h = map snd ?shapes" and mw: "map to_float w = map fst ?shapes"
    using anchor_hw_ok [OF assms] by blast
  have n: "length ?shapes = ?n"
    using assms by (intro length_cell_shapes) (auto simp: valid_level_def)
  have feat: "\<not> fst feat_shape < 0" "\<not> snd feat_shape < 0"
    using assms by (simp_all add: valid_level_def)
  have x: "map (map (\<lambda>v. (v + offset) * step / real_of_int (snd img_shape)))
             (mgrid_x (fst feat_shape) (snd feat_shape)) = map (\<lambda>i. map (?gx i) ?js) ?is"
    by (simp add: mgrid_x_def comp_def)
  have y: "map (map (\<lambda>v. (v + offset) * step / real_of_int (fst img_shape)))
             (mgrid_y (fst feat_shape) (snd feat_shape)) = map (\<lambda>i. map (?gy i) ?js) ?is"
    by (simp add: mgrid_y_def comp_def)
  have z: "np_zeros (fst feat_shape) (snd feat_shape) ?n
      = Inr (map (\<lambda>i. map (\<lambda>j. replicate ?n (replicate 4 0)) ?js) ?is)"
    using feat by (simp add: np_zeros_def map_replicate_const)
  have "ssd_anchor_one_layer img_shape feat_shape sizes ratios step offset
      = Inr (concat (concat (fold
          (fill_anchor (map (\<lambda>i. map (?gx i) ?js) ?is) (map (\<lambda>i. map (?gy i) ?js) ?is) w h)
          [0..<?n] (map (\<lambda>i. map (\<lambda>j. replicate ?n (replicate 4 0)) ?js) ?is))))"
    unfolding ssd_anchor_one_layer_def Let_def x y hw z
    by simp
  also have "\<dots> = Inr (concat (concat (map (\<lambda>i. map (\<lambda>j.
        map (\<lambda>k. if k < ?n then [?gx i j, ?gy i j, to_float (w ! k), to_float (h ! k)]
                  else replicate 4 0) [0..<?n]) ?js) ?is)))"
    by (subst fold_fill_anchor) simp_all
  also have "\<dots> = Inr (concat (concat (map (\<lambda>i. map (\<lambda>j.
        map (\<lambda>(w, h). [?gx i j, ?gy i j, w, h]) ?shapes) ?js) ?is)))"
  proof -
    have "\<And>a b. map (\<lambda>k. if k < ?n then [a, b, to_float (w ! k), to_float (h ! k)]
                  else replicate 4 0) [0..<?n] = map (\<lambda>(w, h). [a, b, w, h]) ?shapes"
    proof -
      fix a b :: real
      have "map (\<lambda>k. if k < ?n then [a, b, to_float (w ! k), to_float (h ! k)]
                  else replicate 4 0) [0..<?n]
          = map (\<lambda>k. [a, b, to_float (w ! k), to_float (h ! k)]) [0..<length ?shapes]"
        unfolding n by (rule map_cong) simp_all
      then show "map (\<lambda>k. if k < ?n then [a, b, to_float (w ! k), to_float (h ! k)]
                  else replicate 4 0) [0..<?n] = map (\<lambda>(w, h). [a, b, w, h]) ?shapes"
        by (simp only: map_nth_pairs [OF mw mh])
    qed
    then show ?thesis by (simp only:)
  qed
  also have "\<dots> = Inr (level_anchors img_shape feat_shape ?shapes step offset)"
    by (simp add: level_anchors_def concat_concat_map comp_def)
  finally show ?thesis .
qed

lemma layers_loop_ok:
  assumes "\<forall>l < length ls. i + l < length S \<and> i + l < length R \<and> i + l < length T
             \<and> valid_level img_shape (ls ! l) (S ! (i + l)) (R ! (i + l))"
  shows "layers_loop img_shape S R T offset i ls acc
     = Inr (acc @ map (\<lambda>l. level_anchors img_shape (ls ! l)
                        (cell_shapes img_shape (S ! (i + l)) (R ! (i + l))) (T ! (i + l)) offset)
                    [0..<length ls])"
  using assms
proof (induction ls arbitrary: i acc)
  case Nil
  then show ?case by simp
next
  case (Cons s ls)
  from Cons.prems have 0: "i < length S" "i < length R" "i < length T"
      "valid_level img_shape s (S ! i) (R ! i)"
    by auto
  have rest: "\<forall>l < length ls. Suc i + l < length S \<and> Suc i + l < length R \<and> Suc i + l < length T
             \<and> valid_level img_shape (ls ! l) (S ! (Suc i + l)) (R ! (Suc i + l))"
  proof (intro allI impI)
    fix l assume "l < length ls"
    then have "Suc l < length (s # ls)" by simp
    with Cons.prems have "i + Suc l < length S \<and> i + Suc l < length R \<and> i + Suc l < length T
             \<and> valid_level img_shape ((s # ls) ! Suc l) (S ! (i + Suc l)) (R ! (i + Suc l))"
      by blast
    then show "Suc i + l < length S \<and> Suc i + l < length R \<and> Suc i + l < length T
             \<and> valid_level img_shape (ls ! l) (S ! (Suc i + l)) (R ! (Suc i + l))"
      by simp
  qed
  have "layers_loop img_shape S R T offset i (s # ls) acc
      = layers_loop img_shape S R T offset (Suc i) ls
          (acc @ [level_anchors img_shape s (cell_shapes img_shape (S ! i) (R ! i)) (T ! i) offset])"
    using 0 by (simp add: getitem_def one_layer_ok)
  also have "\<dots> = Inr ((acc @ [level_anchors img_shape s (cell_shapes img_shape (S ! i) (R ! i))
                               (T ! i) offset])
        @ map (\<lambda>l. level_anchors img_shape (ls ! l)
                        (cell_shapes img_shape (S ! (Suc i + l)) (R ! (Suc i + l)))
                        (T ! (Suc i + l)) offset) [0..<length ls])"
    by (rule Cons.IH [OF rest])
  finally show ?case by (simp add: map_upt_Suc del: upt_Suc)
qed

lemma all_layers_ok:
  assumes "valid_config img_shape layers_shape anchor_sizes anchor_ratios anchor_steps"
  shows "ssd_anchors_all_layers img_shape layers_shape anchor_sizes anchor_ratios anchor_steps
           offset
     = Inr (anchor_set img_shape layers_shape anchor_sizes anchor_ratios anchor_steps offset)"
proof -
  have "layers_loop img_shape anchor_sizes anchor_ratios anchor_steps offset 0 layers_shape []
     = Inr ([] @ map (\<lambda>l. level_anchors img_shape (layers_shape ! l)
                        (cell_shapes img_shape (anchor_sizes ! (0 + l)) (anchor_ratios ! (0 + l)))
                        (anchor_steps ! (0 + l)) offset)
                    [0..<length layers_shape])"
    using assms by (intro layers_loop_ok) (simp add: valid_config_def)
  moreover have "layers_shape \<noteq> []" using assms by (simp add: valid_config_def)
  ultimately show ?thesis
    by (simp add: ssd_anchors_all_layers_def np_vstack_def anchor_set_def)
qed

lemma length_level_anchors:
  "length (level_anchors img_shape feat_shape shapes step offset)
     = nat (fst feat_shape) * nat (snd feat_shape) * length shapes"
  by (simp add: level_anchors_def length_concat comp_def sum_list_triv)

lemma length_anchor_set:
  assumes "valid_config img_shape layers_shape anchor_sizes anchor_ratios anchor_steps"
  shows "length (anchor_set img_shape layers_shape anchor_sizes anchor_ratios anchor_steps offset)
     = sum_list (map (\<lambda>l. nat (fst (layers_shape ! l)) * nat (snd (layers_shape ! l))
                        * (length (anchor_sizes ! l) + length (anchor_ratios ! l)))
                 [0..<length layers_shape])"
proof -
  have "\<And>l. l < length layers_shape \<Longrightarrow>
      length (cell_shapes img_shape (anchor_sizes ! l) (anchor_ratios ! l))
        = length (anchor_sizes ! l) + length (anchor_ratios ! l)"
    using assms by (intro length_cell_shapes) (auto simp: valid_config_def valid_level_def)
  then have "sum_list (map (\<lambda>l. nat (fst (layers_shape ! l)) * nat (snd (layers_shape ! l))
                * length (cell_shapes img_shape (anchor_sizes ! l) (anchor_ratios ! l)))
              [0..<length layers_shape])
      = sum_list (map (\<lambda>l. nat (fst (layers_shape ! l)) * nat (snd (layers_shape ! l))
                * (length (anchor_sizes ! l) + length (anchor_ratios ! l)))
              [0..<length layers_shape])"
    by (intro arg_cong [where f = sum_list] map_cong) simp_all
  moreover have "length (anchor_set img_shape layers_shape anchor_sizes anchor_ratios
                   anchor_steps offset)
      = sum_list (map (\<lambda>l. nat (fst (layers_shape ! l)) * nat (snd (layers_shape ! l))
                * length (cell_shapes img_shape (anchor_sizes ! l) (anchor_ratios ! l)))
              [0..<length layers_shape])"
    by (simp add: anchor_set_def length_concat comp_def length_level_anchors)
  ultimately show ?thesis by (simp only:)
qed

lemma rows_level_anchors:
  "row \<in> set (level_anchors img_shape feat_shape shapes step offset) \<Longrightarrow> length row = 4"
  by (auto simp: level_anchors_def)

lemma nth_concat_uniform:
  assumes "\<forall>xs \<in> set xss. length xs = n" "i < length xss" "k < n"
  shows "concat xss ! (i * n + k) = xss ! i ! k"
  using assms
proof (induction xss arbitrary: i)
  case Nil
  then show ?case by simp
next
  case (Cons xs xss)
  show ?case
  proof (cases i)
    case 0
    then show ?thesis using Cons.prems by (simp add: nth_append)
  next
    case (Suc i')
    then have "concat (xs # xss) ! (i * n + k) = concat xss ! (i' * n + k)"
      using Cons.prems by (simp add: nth_append)
    also have "\<dots> = xss ! i' ! k"
      using Cons.prems Suc by (intro Cons.IH) simp_all
    finally show ?thesis using Suc by simp
  qed
qed

lemma nth_level_anchors:
  assumes "i < nat (fst feat_shape)" "j < nat (snd feat_shape)" "k < length shapes"
  shows "level_anchors img_shape feat_shape shapes step offset
           ! ((i * nat (snd feat_shape) + j) * length shapes + k)
     = [(real j + offset) * step / real_of_int (snd img_shape),
        (real i + offset) * step / real_of_int (fst img_shape),
        fst (shapes ! k), snd (shapes ! k)]"
proof -
  let ?W = "nat (snd feat_shape)"
  let ?A = "length shapes"
  let ?cell = "\<lambda>i j. map (\<lambda>(w, h).
         [(real j + offset) * step / real_of_int (snd img_shape),
          (real i + offset) * step / real_of_int (fst img_shape), w, h]) shapes"
  let ?row = "\<lambda>i. concat (map (?cell i) [0..<?W])"
  have row_len: "\<And>i. length (?row i) = ?W * ?A"
    by (simp add: length_concat comp_def sum_list_triv)
  have jk: "j * ?A + k < ?W * ?A"
  proof -
    have "j * ?A + k < Suc j * ?A" using assms(3) by simp
    also have "\<dots> \<le> ?W * ?A" using assms(2) by (intro mult_le_mono1) simp
    finally show ?thesis .
  qed
  have idx: "(i * ?W + j) * ?A + k = i * (?W * ?A) + (j * ?A + k)"
    by (simp add: algebra_simps)
  have "level_anchors img_shape feat_shape shapes step offset ! (i * (?W * ?A) + (j * ?A + k))
      = map ?row [0..<nat (fst feat_shape)] ! i ! (j * ?A + k)"
    unfolding level_anchors_def
    using assms(1) jk by (intro nth_concat_uniform) (auto simp: row_len)
  also have "\<dots> = ?row i ! (j * ?A + k)" using assms(1) by simp
  also have "\<dots> = map (?cell i) [0..<?W] ! j ! k"
    using assms(2,3) by (intro nth_concat_uniform) auto
  also have "\<dots> = ?cell i j ! k" using assms(2) by simp
  also have "\<dots> = [(real j + offset) * step / real_of_int (snd img_shape),
        (real i + offset) * step / real_of_int (fst img_shape),
        fst (shapes ! k), snd (shapes ! k)]"
    using assms(3) by (simp add: case_prod_beta)
  finally show ?thesis unfolding idx .
qed

lemma isl_ebind: "(\<And>v. m = Inr v \<Longrightarrow> isl (f v)) \<Longrightarrow> isl (ebind m f)"
  by (cases m) (auto simp: ebind_def)

lemma getitem_Inr: "getitem xs i = Inr v \<Longrightarrow> i < length xs"
  by (simp add: getitem_def split: if_splits)

text \<open>
  A list of feature shapes longer than one of the per-level lists runs into an index
  error at the latest at the first missing entry; entries beyond the number of feature
  shapes are never read.
\<close>

lemma layers_loop_short:
  assumes "i \<le> min (length S) (min (length R) (length T))"
    and "min (length S) (min (length R) (length T)) < i + length ls"
  shows "isl (layers_loop img_shape S R T offset i ls acc)"
  using assms
proof (induction ls arbitrary: i acc)
  case Nil
  then have False by (simp add: min_def split: if_splits)
  then show ?case ..
next
  case (Cons s ls)
  show ?case
    unfolding layers_loop.simps
  proof (intro isl_ebind)
    fix sizes ratios step anchor_bboxes
    assume "getitem S i = Inr sizes" "getitem R i = Inr ratios" "getitem T i = Inr step"
    then have "i < length S" "i < length R" "i < length T"
      by (auto dest: getitem_Inr)
    then have "Suc i \<le> min (length S) (min (length R) (length T))" by simp
    moreover have "min (length S) (min (length R) (length T)) < Suc i + length ls"
      using Cons.prems by simp
    ultimately show "isl (layers_loop img_shape S R T offset (Suc i) ls (acc @ [anchor_bboxes]))"
      by (rule Cons.IH)
  qed
qed

lemma all_layers_short:
  assumes "length S < length ls \<or> length R < length ls \<or> length T < length ls"
  shows "isl (ssd_anchors_all_layers img_shape ls S R T offset)"
proof -
  have "isl (layers_loop img_shape S R T offset 0 ls [])"
    using assms by (intro layers_loop_short) auto
  then show ?thesis
    by (cases "layers_loop img_shape S R T offset 0 ls []")
       (simp_all add: ssd_anchors_all_layers_def)
qed

lemma getitem_take: "i < n \<Longrightarrow> getitem (take n xs) i = getitem xs i"
  by (simp add: getitem_def)

lemma layers_loop_take:
  assumes "i + length ls \<le> n"
  shows "layers_loop img_shape (take n S) (take n R) (take n T) offset i ls acc
     = layers_loop img_shape S R T offset i ls acc"
  using assms
proof (induction ls arbitrary: i acc)
  case Nil
  then show ?case by simp
next
  case (Cons s ls)
  then have i: "i < n" and rest: "Suc i + length ls \<le> n" by simp_all
  show ?case
    by (simp only: layers_loop.simps getitem_take [OF i] Cons.IH [OF rest])
qed

lemma all_layers_take:
  "ssd_anchors_all_layers img_shape ls (take (length ls) S) (take (length ls) R)
       (take (length ls) T) offset
     = ssd_anchors_all_layers img_shape ls S R T offset"
  by (simp add: ssd_anchors_all_layers_def layers_loop_take)

lemma size_bounds_non_square:
  "fst img_shape \<noteq> snd img_shape \<Longrightarrow>
     ssd_size_bounds_to_values fmul size_bounds n_feat_layers img_shape = Inl AssertionError"
  by (simp add: ssd_size_bounds_to_values_def)

text \<open>
  The default bounds give the sizes of \<open>default_params\<close>, when the two float products
  truncate to 10 and 90 (as the products of the floats nearest to 0.1 and 0.9 do).
\<close>

lemma size_bounds_default:
  assumes "py_int (fmul (1 / 10) 100) = 10" "py_int (fmul (9 / 10) 100) = 90"
  shows "ssd_size_bounds_to_values fmul [1 / 10, 9 / 10] 7 (512, 512)
     = Inr [(2048 / 100, 512 / 10), (512 / 10, 13312 / 100), (13312 / 100, 21504 / 100),
            (21504 / 100, 29696 / 100), (29696 / 100, 37888 / 100), (37888 / 100, 4608 / 10),
            (4608 / 10, 54272 / 100)]"
  using assms
  by (simp add: ssd_size_bounds_to_values_def getitem_def py_floordiv_def py_range_def
       Let_def eval_nat_numeral)

text \<open>
  The centres on every accepted level, for integer and float sizes alike: the anchor \<open>k\<close>
  of the cell in row \<open>i\<close> and column \<open>j\<close> is row \<open>(i * W + j) * num_anchors + k\<close> of the
  result.
\<close>

lemma one_layer_centers:
  assumes v: "valid_level img_shape feat_shape sizes ratios"
    and i: "i < nat (fst feat_shape)" and j: "j < nat (snd feat_shape)"
    and k: "k < length sizes + length ratios"
  shows "\<exists>anchors. ssd_anchor_one_layer img_shape feat_shape sizes ratios step offset = Inr anchors
          \<and> anchors ! ((i * nat (snd feat_shape) + j) * (length sizes + length ratios) + k) ! 0
              = (real j + offset) * step / real_of_int (snd img_shape)
          \<and> anchors ! ((i * nat (snd feat_shape) + j) * (length sizes + length ratios) + k) ! 1
              = (real i + offset) * step / real_of_int (fst img_shape)"
proof -
  let ?shapes = "cell_shapes img_shape sizes ratios"
  have n: "length ?shapes = length sizes + length ratios"
    using v by (intro length_cell_shapes) (auto simp: valid_level_def)
  have "level_anchors img_shape feat_shape ?shapes step offset
           ! ((i * nat (snd feat_shape) + j) * length ?shapes + k)
     = [(real j + offset) * step / real_of_int (snd img_shape),
        (real i + offset) * step / real_of_int (fst img_shape),
        fst (?shapes ! k), snd (?shapes ! k)]"
    using i j k n by (intro nth_level_anchors) simp_all
  then have "level_anchors img_shape feat_shape ?shapes step offset
           ! ((i * nat (snd feat_shape) + j) * (length sizes + length ratios) + k) ! 0
       = (real j + offset) * step / real_of_int (snd img_shape)
     \<and> level_anchors img_shape feat_shape ?shapes step offset
           ! ((i * nat (snd feat_shape) + j) * (length sizes + length ratios) + k) ! 1
       = (real i + offset) * step / real_of_int (fst img_shape)"
    by (simp add: n)
  moreover have "ssd_anchor_one_layer img_shape feat_shape sizes ratios step offset
      = Inr (level_anchors img_shape feat_shape ?shapes step offset)"
    using v by (rule one_layer_ok)
  ultimately show ?thesis by blast
qed

text \<open>
  The shapes when the first size is a float: every division is the true division, and
  the lists are the ones the specification gives.
\<close>

lemma anchor_hw_float_one:
  assumes "fst img_shape \<noteq> 0" "snd img_shape \<noteq> 0" "\<forall>r \<in> set ratios. 0 < r"
  shows "anchor_hw img_shape [PyFloat s0] ratios
         = Inr (map PyFloat (s0 / real_of_int (fst img_shape)
                  # map (\<lambda>r. s0 / real_of_int (fst img_shape) / sqrt r) ratios),
                map PyFloat (s0 / real_of_int (snd img_shape)
                  # map (\<lambda>r. s0 / real_of_int (snd img_shape) * sqrt r) ratios))"
  using assms by (simp add: anchor_hw_one comp_def)

lemma anchor_hw_float_two:
  assumes "fst img_shape \<noteq> 0" "snd img_shape \<noteq> 0" "\<forall>r \<in> set ratios. 0 < r"
    and "0 \<le> s0 * to_float s1"
  shows "anchor_hw img_shape [PyFloat s0, s1] ratios
         = Inr (map PyFloat (s0 / real_of_int (fst img_shape)
                  # sqrt (s0 * to_float s1) / real_of_int (fst img_shape)
                  # map (\<lambda>r. s0 / real_of_int (fst img_shape) / sqrt r) ratios),
                map PyFloat (s0 / real_of_int (snd img_shape)
                  # sqrt (s0 * to_float s1) / real_of_int (snd img_shape)
                  # map (\<lambda>r. s0 / real_of_int (snd img_shape) * sqrt r) ratios))"
  using assms by (simp add: anchor_hw_two comp_def)

section \<open>The claims\<close>

text \<open>
  C1. When every anchor of the batch has ground-truth class 0, so that the positive count
  \<open>N\<close> is 0, the classification loss and the localization loss that \<open>ssd_losses\<close>
  adds to the loss collection are both the finite number 0, neither NaN nor infinite
  nor a failure: each is the constant of the \<open>no_pos\<close> branch, the division by \<open>N\<close> (which
  would give NaN here) is not run, no image enters the mining and the cross-entropy is
  not run (in the witness it would fail on every anchor).
\<close>

theorem zero_positive_batch_losses:
  assumes "\<And>i j. i < B \<Longrightarrow> j < A \<Longrightarrow> gclasses i j = 0"
  shows "ssd_losses xent B A confidences logits localizations gclasses glocalizations gscores
           negative_ratio alpha label_smoothing losses
         = losses @ [Inr (Finite 0), Inr (Finite 0)]"
proof -
  have le: "\<And>i j. i < B \<Longrightarrow> j < A \<Longrightarrow> gclasses i j \<le> 0" by (simp add: assms)
  have N: "reduce_sum2 B A (float_pos_mask gclasses) = 0" using le by (rule N_zero)
  obtain w where w: "cls_weight B A confidences gclasses negative_ratio = Inr w"
    using cls_weight_no_pos [of B A gclasses confidences negative_ratio] le by blast
  show ?thesis by (simp add: ssd_losses_def cls_loss_def loc_loss_def N w)
qed

theorem zero_positive_batch_losses_witness:
  "n_positives 2 3 (\<lambda>i j. 0) = 0
   \<and> tf_div 0 (real (n_positives 2 3 (\<lambda>i j. 0))) = NaN
   \<and> ssd_losses (\<lambda>l c. Inl InvalidArgumentError) 2 3 (\<lambda>i j c. 1 / 2) (\<lambda>i j c. 0)
        (\<lambda>i j k. 5) (\<lambda>i j. 0) (\<lambda>i j k. 0) (\<lambda>i j. 0) 3 1 0 []
       = [Inr (Finite 0), Inr (Finite 0)]"
  using zero_positive_batch_losses [of 2 3 "\<lambda>i j. 0" "\<lambda>l c. Inl InvalidArgumentError"
      "\<lambda>i j c. 1 / 2" "\<lambda>i j c. 0" "\<lambda>i j k. 5" "\<lambda>i j k. 0" "\<lambda>i j. 0" 3 1 0 "[]"]
  by (simp add: n_positives_def n_pos_img_def tf_div_def)

text \<open>
  C2. For an image with a positive anchor the claim makes the selected negatives the
  negative anchors at or below the \<open>n_neg\<close>-th smallest mining value. That holds when
  \<open>n_neg\<close> is at least 1 (\<open>selected_img_neg_has_pos\<close>). When \<open>n_neg\<close> is 0 the code selects
  no anchors: it fails, since \<open>top_k\<close> returns no value and \<open>val[-1]\<close> is out of bounds.
  Two such images: one positive and one negative anchor with \<open>negative_ratio = 0.5\<close>, and
  a single positive anchor with the default \<open>negative_ratio = 3\<close>.
\<close>

theorem hard_negative_mining_zero_target:
  "n_pos_img 2 (\<lambda>i j. if j = 0 then 1 else 0) 0 = 1
   \<and> n_neg_target 2 (\<lambda>i j. if j = 0 then 1 else 0) (1 / 2) 0 = 0
   \<and> selected_img_neg 2 (\<lambda>i j c. 1 / 2) (\<lambda>i j. if j = 0 then 1 else 0) (1 / 2) 0
       = Inl InvalidArgumentError
   \<and> n_pos_img 1 (\<lambda>i j. 1) 0 = 1
   \<and> n_neg_target 1 (\<lambda>i j. 1) 3 0 = 0
   \<and> selected_img_neg 1 (\<lambda>i j c. 1 / 2) (\<lambda>i j. 1) 3 0 = Inl InvalidArgumentError"
  by (simp add: selected_img_neg_def mining_has_pos_def reduce_sum_def top_k_def last_elem_def
      cast_float_def pos_mask_def neg_mask_def cast_int32_def n_pos_img_def n_neg_img_def
      n_neg_target_def Let_def eval_nat_numeral)

text \<open>
  C3. For an image with no positive anchor the selection is 0 for every anchor, whatever
  the confidences and the ratio are: the \<open>no_pos\<close> branch is taken and the top-k path is
  not entered (at the witness's input that path would fail).
\<close>

theorem no_positive_image_selects_nothing:
  assumes "n_pos_img A gclasses i = 0"
  shows "selected_img_neg A confidences gclasses negative_ratio i = Inr (\<lambda>j. 0)"
  using assms by (simp add: selected_img_neg_no_pos reduce_sum_pos_mask)

theorem no_positive_image_selects_nothing_witness:
  "n_pos_img 2 (\<lambda>i j. 0) 0 = 0
   \<and> selected_img_neg 2 (\<lambda>i j c. 1 / 2) (\<lambda>i j. 0) 3 0 = Inr (\<lambda>j. 0)
   \<and> mining_has_pos 2 3 (nvalues (\<lambda>i j c. 1 / 2) (\<lambda>i j. 0) 0) (neg_mask (\<lambda>i j. 0) 0)
        (\<lambda>j. cast_float (neg_mask (\<lambda>i j. 0) 0 j)) 0 = Inl InvalidArgumentError"
  using no_positive_image_selects_nothing [of 2 "\<lambda>i j. 0" 0 "\<lambda>i j c. 1 / 2" 3]
  by (simp add: n_pos_img_def mining_has_pos_def reduce_sum_def top_k_def last_elem_def
      cast_float_def neg_mask_def pos_mask_def cast_int32_def Let_def eval_nat_numeral)

text \<open>
  C4. With a positive anchor in the batch the claim makes the classification loss the
  weighted sum of the cross-entropies divided by \<open>N\<close>. That holds when every image with
  a positive anchor has a target \<open>n_neg\<close> of at least 1 (\<open>cls_loss_formula\<close>). On a batch
  of one image with one positive and one negative anchor and \<open>negative_ratio = 0.5\<close>,
  \<open>N\<close> is 1 and the classification loss is no number: running it fails in the mining.
\<close>

theorem cls_loss_zero_target:
  "n_positives 1 2 (\<lambda>i j. if j = 0 then 1 else 0) = 1
   \<and> ssd_losses xent 1 2 (\<lambda>i j c. 1 / 2) logits localizations (\<lambda>i j. if j = 0 then 1 else 0)
         glocalizations gscores (1 / 2) alpha label_smoothing [] ! 0
       = Inl InvalidArgumentError"
  by (simp add: ssd_losses_def cls_loss_def cls_weight_def selected_neg_def
      selected_img_neg_def mining_has_pos_def reduce_sum_def top_k_def last_elem_def
      cast_float_def pos_mask_def neg_mask_def cast_int32_def n_pos_img_def n_positives_def
      Let_def eval_nat_numeral)



text \<open>
  C6. The centres are the ones the claim gives, on every accepted level
  (\<open>one_layer_centers\<close>). The scenario of the claim is a 2 x 2 level with the one size
  \<open>(100,)\<close>, no ratio, image shape (512, 512), step 256 and offset 0.5. Its size is the
  Python integer 100, so \<open>sizes[0] / img_shape[0]\<close> is \<open>100 / 512\<close> on two integers,
  which is 0: the four anchors have the centres of the claim and width = height = 0, not
  100 / 512. With the float size 100.0 the code returns the anchors of the claim.
\<close>

theorem anchor_scenario_integer_size:
  "ssd_anchor_one_layer (512, 512) (2, 2) [PyInt 100] [] 256 (1 / 2)
       = Inr [[1 / 4, 1 / 4, 0, 0], [3 / 4, 1 / 4, 0, 0],
              [1 / 4, 3 / 4, 0, 0], [3 / 4, 3 / 4, 0, 0]]
   \<and> ssd_anchor_one_layer (512, 512) (2, 2) [PyFloat 100] [] 256 (1 / 2)
       = Inr [[1 / 4, 1 / 4, 100 / 512, 100 / 512], [3 / 4, 1 / 4, 100 / 512, 100 / 512],
              [1 / 4, 3 / 4, 100 / 512, 100 / 512], [3 / 4, 3 / 4, 100 / 512, 100 / 512]]"
  by (simp add: ssd_anchor_one_layer_def anchor_hw_def mgrid_x_def mgrid_y_def np_zeros_def
      fill_anchor_def assign_grid_def assign_scalar_def getitem_def setitem_def
      Let_def eval_nat_numeral)

text \<open>
  C7. With a float first size the lists of heights and widths are the ones the claim
  gives (\<open>anchor_hw_float_one\<close>, \<open>anchor_hw_float_two\<close>). With integer sizes they are
  not: for the size 100, the ratio 4 and the image shape (512, 512) the heights and the
  widths are all 0, where the claim has the heights 100 / 512 and (100 / 512) / 2 and
  the widths 100 / 512 and (100 / 512) * 2; for the sizes 600 and 2400 anchor 0 has
  height and width 1, not 600 / 512, while anchor 1, which goes through the float
  \<open>math.sqrt\<close>, has sqrt (600 * 2400) / 512 = 1200 / 512.
\<close>

theorem anchor_shapes_integer_size:
  "anchor_hw (512, 512) [PyInt 100] [4] = Inr ([PyInt 0, PyFloat 0], [PyInt 0, PyFloat 0])
   \<and> anchor_hw (512, 512) [PyFloat 100] [4]
       = Inr ([PyFloat (100 / 512), PyFloat (100 / 512 / 2)],
              [PyFloat (100 / 512), PyFloat (100 / 512 * 2)])
   \<and> anchor_hw (512, 512) [PyInt 600, PyInt 2400] []
       = Inr ([PyInt 1, PyFloat (1200 / 512)], [PyInt 1, PyFloat (1200 / 512)])"
proof -
  have s: "sqrt 1440000 = 1200" using real_sqrt_abs [of 1200] by simp
  show ?thesis
    by (simp add: anchor_hw_def getitem_def setitem_def math_sqrt_def Let_def s
        eval_nat_numeral)
qed

text \<open>
  C8. For a valid configuration \<open>ssd_anchors_all_layers\<close> returns the anchors of the
  levels in level order, each level cell by cell in row-major order with the shapes of a
  cell in their fixed order and every row laid out as (center_x, center_y, width,
  height); the number of anchors is the sum over the levels of
  \<open>H * W * (|sizes| + |ratios|)\<close>.
\<close>

theorem anchor_set_layout:
  assumes "valid_config img_shape layers_shape anchor_sizes anchor_ratios anchor_steps"
  shows "ssd_anchors_all_layers img_shape layers_shape anchor_sizes anchor_ratios anchor_steps
           offset
       = Inr (anchor_set img_shape layers_shape anchor_sizes anchor_ratios anchor_steps offset)
     \<and> length (anchor_set img_shape layers_shape anchor_sizes anchor_ratios anchor_steps offset)
       = sum_list (map (\<lambda>l. nat (fst (layers_shape ! l)) * nat (snd (layers_shape ! l))
                          * (length (anchor_sizes ! l) + length (anchor_ratios ! l)))
                   [0..<length layers_shape])
     \<and> (\<forall>row \<in> set (anchor_set img_shape layers_shape anchor_sizes anchor_ratios anchor_steps
                        offset). length row = 4)
     \<and> (\<forall>l < length layers_shape.
           ssd_anchor_one_layer img_shape (layers_shape ! l) (anchor_sizes ! l)
               (anchor_ratios ! l) (anchor_steps ! l) offset
             = Inr (level_anchors img_shape (layers_shape ! l)
                      (cell_shapes img_shape (anchor_sizes ! l) (anchor_ratios ! l))
                      (anchor_steps ! l) offset)
           \<and> length (level_anchors img_shape (layers_shape ! l)
                      (cell_shapes img_shape (anchor_sizes ! l) (anchor_ratios ! l))
                      (anchor_steps ! l) offset)
             = nat (fst (layers_shape ! l)) * nat (snd (layers_shape ! l))
                 * (length (anchor_sizes ! l) + length (anchor_ratios ! l)))"
proof (intro conjI allI impI)
  show "ssd_anchors_all_layers img_shape layers_shape anchor_sizes anchor_ratios anchor_steps
           offset
       = Inr (anchor_set img_shape layers_shape anchor_sizes anchor_ratios anchor_steps offset)"
    using assms by (rule all_layers_ok)
  show "length (anchor_set img_shape layers_shape anchor_sizes anchor_ratios anchor_steps offset)
       = sum_list (map (\<lambda>l. nat (fst (layers_shape ! l)) * nat (snd (layers_shape ! l))
                          * (length (anchor_sizes ! l) + length (anchor_ratios ! l)))
                   [0..<length layers_shape])"
    using assms by (rule length_anchor_set)
  show "\<forall>row \<in> set (anchor_set img_shape layers_shape anchor_sizes anchor_ratios anchor_steps
                        offset). length row = 4"
    by (auto simp: anchor_set_def dest: rows_level_anchors)
next
  fix l assume l: "l < length layers_shape"
  then have v: "valid_level img_shape (layers_shape ! l) (anchor_sizes ! l) (anchor_ratios ! l)"
    using assms by (simp add: valid_config_def)
  then show "ssd_anchor_one_layer img_shape (layers_shape ! l) (anchor_sizes ! l)
               (anchor_ratios ! l) (anchor_steps ! l) offset
             = Inr (level_anchors img_shape (layers_shape ! l)
                      (cell_shapes img_shape (anchor_sizes ! l) (anchor_ratios ! l))
                      (anchor_steps ! l) offset)"
    by (rule one_layer_ok)
  have "length (cell_shapes img_shape (anchor_sizes ! l) (anchor_ratios ! l))
      = length (anchor_sizes ! l) + length (anchor_ratios ! l)"
    using v by (intro length_cell_shapes) (auto simp: valid_level_def)
  then show "length (level_anchors img_shape (layers_shape ! l)
                      (cell_shapes img_shape (anchor_sizes ! l) (anchor_ratios ! l))
                      (anchor_steps ! l) offset)
             = nat (fst (layers_shape ! l)) * nat (snd (layers_shape ! l))
                 * (length (anchor_sizes ! l) + length (anchor_ratios ! l))"
    by (simp add: length_level_anchors)
qed

theorem anchor_set_layout_witness:
  "valid_config (512, 512) [(2, 2), (1, 1)] [[PyFloat 100], [PyFloat 1, PyFloat 4]] [[], [4]]
       [256, 512]
   \<and> ssd_anchors_all_layers (512, 512) [(2, 2), (1, 1)]
         [[PyFloat 100], [PyFloat 1, PyFloat 4]] [[], [4]] [256, 512] (1 / 2)
       = Inr [[1 / 4, 1 / 4, 100 / 512, 100 / 512], [3 / 4, 1 / 4, 100 / 512, 100 / 512],
              [1 / 4, 3 / 4, 100 / 512, 100 / 512], [3 / 4, 3 / 4, 100 / 512, 100 / 512],
              [1 / 2, 1 / 2, 1 / 512, 1 / 512], [1 / 2, 1 / 2, 2 / 512, 2 / 512],
              [1 / 2, 1 / 2, 2 / 512, 1 / 1024]]
   \<and> length (anchor_set (512, 512) [(2, 2), (1, 1)] [[PyFloat 100], [PyFloat 1, PyFloat 4]]
         [[], [4]] [256, 512] (1 / 2))
       = 2 * 2 * 1 + 1 * 1 * 3"
proof -
  have v: "valid_config (512, 512) [(2, 2), (1, 1)] [[PyFloat 100], [PyFloat 1, PyFloat 4]]
       [[], [4]] [256, 512]"
    by (simp add: valid_config_def valid_level_def All_less_Suc eval_nat_numeral)
  have s: "anchor_set (512, 512) [(2, 2), (1, 1)] [[PyFloat 100], [PyFloat 1, PyFloat 4]]
         [[], [4]] [256, 512] (1 / 2)
       = [[1 / 4, 1 / 4, 100 / 512, 100 / 512], [3 / 4, 1 / 4, 100 / 512, 100 / 512],
              [1 / 4, 3 / 4, 100 / 512, 100 / 512], [3 / 4, 3 / 4, 100 / 512, 100 / 512],
              [1 / 2, 1 / 2, 1 / 512, 1 / 512], [1 / 2, 1 / 2, 2 / 512, 2 / 512],
              [1 / 2, 1 / 2, 2 / 512, 1 / 1024]]"
    by (simp add: anchor_set_def level_anchors_def cell_shapes_def Let_def eval_nat_numeral)
  show ?thesis
    using v s anchor_set_layout [OF v, of "1 / 2"] by simp
qed

text \<open>
  C9 as stated fails: \<open>ssd_anchors_all_layers\<close> returns anchors for the non-square image
  shape (512, 256), and with one feature shape and two entries in each per-level list it
  returns the anchors of the first level and drops the second entry.
\<close>

theorem anchors_accept_unchecked_config:
  "ssd_anchors_all_layers (512, 256) [(1, 1)] [[PyFloat 100]] [[]] [256] (1 / 2)
     = Inr [[1 / 2, 1 / 4, 100 / 256, 100 / 512]]
   \<and> ssd_anchors_all_layers (512, 512) [(1, 1)] [[PyFloat 100], [PyFloat 200]] [[], [4]]
         [256, 512] (1 / 2)
     = Inr [[1 / 4, 1 / 4, 100 / 512, 100 / 512]]"
  by (simp add: ssd_anchors_all_layers_def np_vstack_def ssd_anchor_one_layer_def anchor_hw_def
      mgrid_x_def mgrid_y_def np_zeros_def fill_anchor_def assign_grid_def assign_scalar_def
      getitem_def setitem_def Let_def eval_nat_numeral)

text \<open>
  C9, amended. The squareness check is in \<open>ssd_size_bounds_to_values\<close> only, which fails
  its assertion on every non-square image shape. \<open>ssd_anchors_all_layers\<close> does not
  check the image shape and returns anchors for every valid configuration, square or
  not. When the list of feature shapes is longer than the list of sizes, ratios or steps
  it raises an error; the entries of those lists beyond the number of feature shapes are
  ignored.
\<close>

theorem config_checks:
  "(fst img_shape \<noteq> snd img_shape
      \<longrightarrow> ssd_size_bounds_to_values fmul size_bounds n_feat_layers img_shape = Inl AssertionError)
   \<and> (valid_config img_shape layers_shape anchor_sizes anchor_ratios anchor_steps
      \<longrightarrow> \<not> isl (ssd_anchors_all_layers img_shape layers_shape anchor_sizes anchor_ratios
                   anchor_steps offset))
   \<and> (length anchor_sizes < length layers_shape \<or> length anchor_ratios < length layers_shape
        \<or> length anchor_steps < length layers_shape
      \<longrightarrow> isl (ssd_anchors_all_layers img_shape layers_shape anchor_sizes anchor_ratios
                 anchor_steps offset))
   \<and> ssd_anchors_all_layers img_shape layers_shape (take (length layers_shape) anchor_sizes)
         (take (length layers_shape) anchor_ratios) (take (length layers_shape) anchor_steps)
         offset
       = ssd_anchors_all_layers img_shape layers_shape anchor_sizes anchor_ratios anchor_steps
           offset"
  by (simp add: size_bounds_non_square all_layers_ok all_layers_short all_layers_take)

theorem config_checks_witness:
  "ssd_size_bounds_to_values (*) [1 / 10, 9 / 10] 7 (512, 256) = Inl AssertionError
   \<and> valid_config (512, 256) [(1, 1)] [[PyFloat 100]] [[]] [256]
   \<and> \<not> isl (ssd_anchors_all_layers (512, 256) [(1, 1)] [[PyFloat 100]] [[]] [256] (1 / 2))
   \<and> isl (ssd_anchors_all_layers (512, 512) [(1, 1), (1, 1)] [[PyFloat 100]] [[], []]
            [256, 512] (1 / 2))
   \<and> ssd_anchors_all_layers (512, 256) [(1, 1)] [[PyFloat 100]] [[]] [256] (1 / 2)
       = ssd_anchors_all_layers (512, 256) [(1, 1)] [[PyFloat 100], [PyFloat 200]] [[], [4]]
           [256, 512] (1 / 2)"
proof -
  have v: "valid_config (512, 256) [(1, 1)] [[PyFloat 100]] [[]] [256]"
    by (simp add: valid_config_def valid_level_def)
  note a = config_checks [of "(512, 256)" "(*)" "[1 / 10, 9 / 10]" 7 "[(1, 1)]"
      "[[PyFloat 100], [PyFloat 200]]" "[[], [4]]" "[256, 512]" "1 / 2"]
  note b = config_checks [of "(512, 256)" "(*)" "[1 / 10, 9 / 10]" 7 "[(1, 1)]"
      "[[PyFloat 100]]" "[[]]" "[256]" "1 / 2"]
  note c = config_checks [of "(512, 512)" "(*)" "[1 / 10, 9 / 10]" 7 "[(1, 1), (1, 1)]"
      "[[PyFloat 100]]" "[[], []]" "[256, 512]" "1 / 2"]
  show ?thesis using v a b c by simp
qed

text \<open>
  C10. The two losses do not depend on \<open>label_smoothing\<close>: the argument is accepted and
  never read.
\<close>

theorem label_smoothing_unused:
  "ssd_losses xent B A confidences logits localizations gclasses glocalizations gscores
       negative_ratio alpha label_smoothing losses
     = ssd_losses xent B A confidences logits localizations gclasses glocalizations gscores
         negative_ratio alpha label_smoothing' losses"
  by (simp add: ssd_losses_def)

end
